theory Spec2Isabelle
  imports Complex_Main "HOL-Library.Sublist"
begin

section \<open>sensorsio: WorldClim 2.0 and Sentinel-2 (MAJA) readers\<close>

text \<open>
  A shallow embedding of \<^verbatim>\<open>src/sensorsio/worldclim.py\<close> and of the path builders of
  \<^verbatim>\<open>src/sensorsio/sentinel2.py\<close>.

  Conventions of the embedding:
  \<^item> Python floats are idealised as \<^typ>\<open>real\<close>: arithmetic is exact, there is no rounding,
    no infinity and no NaN.
  \<^item> Every \<^verbatim>\<open>raise\<close> and every failing \<^verbatim>\<open>assert\<close> is a value \<open>Inl e\<close> of the result type
    \<open>error + 'a\<close>; a normal return is \<open>Inr v\<close>.
  \<^item> The file system and the raster library (rasterio, numpy, glob) are outside the
    repository. What the code reads from them is a parameter of the function that reads
    it: \<open>glob\<close> (a pattern to the list of matching paths), \<open>read_window\<close> (a path and a
    pixel window to the bands read), \<open>reproject\<close>, and so on.
\<close>

subsection \<open>Exceptions\<close>

datatype error =
    ValueError string
  | AssertionError
  | FileNotFoundError string
  | IndexError
  | KeyError string
  | AttributeError string
  | ZeroDivisionError
  | TransformNotInvertibleError
  | RasterioIOError string

text \<open>A list comprehension whose element expression may raise: the first exception
  leaves the comprehension.\<close>

fun sequence :: "(error + 'a) list \<Rightarrow> error + 'a list" where
  "sequence [] = Inr []"
| "sequence (r # rs) =
     (case r of
        Inl e \<Rightarrow> Inl e
      | Inr x \<Rightarrow> (case sequence rs of Inl e \<Rightarrow> Inl e | Inr xs \<Rightarrow> Inr (x # xs)))"

subsection \<open>The WorldClim enumerations\<close>

datatype WorldClimQuantity = PREC | SRAD | TAVG | TMAX | TMIN | VAPR | WIND

fun quantity_value :: "WorldClimQuantity \<Rightarrow> string" where
  "quantity_value PREC = ''prec''"
| "quantity_value SRAD = ''srad''"
| "quantity_value TAVG = ''tavg''"
| "quantity_value TMAX = ''tmax''"
| "quantity_value TMIN = ''tmin''"
| "quantity_value VAPR = ''vapr''"
| "quantity_value WIND = ''wind''"

definition WorldClimQuantityAll :: "WorldClimQuantity list" where
  "WorldClimQuantityAll = [PREC, SRAD, TAVG, TMAX, TMIN, VAPR, WIND]"

datatype WorldClimBio =
    ANNUAL_MEAN_TEMP
  | MEAN_DIURNAL_TEMP_RANGE
  | ISOTHERMALITY
  | TEMP_SEASONALITY
  | MAX_TEMP_WARMEST_MONTH
  | MIN_TEMP_COLDEST_MONTH
  | TEMP_ANNUAL_RANGE
  | MEAN_TEMP_WETTEST_QUART
  | MEAN_TEMP_DRIEST_QUART
  | MEAN_TEMP_WARMEST_QUART
  | MEAN_TEMP_COLDEST_QUART
  | ANNUAL_PREC
  | PREC_WETTEST_MONTH
  | PREC_DRIEST_MONTH
  | PREC_SEASONALITY
  | PREC_WETTEST_QUART
  | PREC_DRIEST_QUART
  | PREC_WARMEST_QUART
  | PREC_COLDEST_QUART

fun bio_value :: "WorldClimBio \<Rightarrow> string" where
  "bio_value ANNUAL_MEAN_TEMP = ''Annual_Mean_Temp''"
| "bio_value MEAN_DIURNAL_TEMP_RANGE = ''Mean_Diurnal_Temp_Range''"
| "bio_value ISOTHERMALITY = ''Isothermality''"
| "bio_value TEMP_SEASONALITY = ''Temp_Seasonality''"
| "bio_value MAX_TEMP_WARMEST_MONTH = ''Max_Temp_Warmest_Month''"
| "bio_value MIN_TEMP_COLDEST_MONTH = ''Min_Temp_Coldest_Month''"
| "bio_value TEMP_ANNUAL_RANGE = ''Temp_Annual_Range''"
| "bio_value MEAN_TEMP_WETTEST_QUART = ''Mean_Temp_Wettest_Quart''"
| "bio_value MEAN_TEMP_DRIEST_QUART = ''Mean_Temp_Driest_Quart''"
| "bio_value MEAN_TEMP_WARMEST_QUART = ''Mean_Temp_Warmest_Quart''"
| "bio_value MEAN_TEMP_COLDEST_QUART = ''Mean_Temp_Coldest_Quart''"
| "bio_value ANNUAL_PREC = ''Annual_Prec''"
| "bio_value PREC_WETTEST_MONTH = ''Prec_Wettest_Month''"
| "bio_value PREC_DRIEST_MONTH = ''Prec_Driest_Month''"
| "bio_value PREC_SEASONALITY = ''Prec_Seasonality''"
| "bio_value PREC_WETTEST_QUART = ''Prec_Wettest_Quart''"
| "bio_value PREC_DRIEST_QUART = ''Prec_Driest_Quart''"
| "bio_value PREC_WARMEST_QUART = ''Prec_Warmest_Quart''"
| "bio_value PREC_COLDEST_QUART = ''Prec_Coldest_Quart''"

definition WorldClimBioAll :: "WorldClimBio list" where
  "WorldClimBioAll =
     [ANNUAL_MEAN_TEMP, MEAN_DIURNAL_TEMP_RANGE, ISOTHERMALITY, TEMP_SEASONALITY,
      MAX_TEMP_WARMEST_MONTH, MIN_TEMP_COLDEST_MONTH, TEMP_ANNUAL_RANGE,
      MEAN_TEMP_WETTEST_QUART, MEAN_TEMP_DRIEST_QUART, MEAN_TEMP_WARMEST_QUART,
      MEAN_TEMP_COLDEST_QUART, ANNUAL_PREC, PREC_WETTEST_MONTH, PREC_DRIEST_MONTH,
      PREC_SEASONALITY, PREC_WETTEST_QUART, PREC_DRIEST_QUART, PREC_WARMEST_QUART,
      PREC_COLDEST_QUART]"

subsection \<open>WorldClimVar\<close>

text \<open>
  The first argument of \<^verbatim>\<open>WorldClimVar.__init__\<close> is annotated
  \<^verbatim>\<open>Union[WorldClimQuantity, WorldClimBio]\<close>, the second \<^verbatim>\<open>Optional[int]\<close>.
\<close>

datatype WorldClimEnum = Quantity WorldClimQuantity | Bio WorldClimBio

fun enum_value :: "WorldClimEnum \<Rightarrow> string" where
  "enum_value (Quantity q) = quantity_value q"
| "enum_value (Bio b) = bio_value b"

fun is_WorldClimBio :: "WorldClimEnum \<Rightarrow> bool" where
  "is_WorldClimBio (Bio b) = True"
| "is_WorldClimBio (Quantity q) = False"

fun is_WorldClimQuantity :: "WorldClimEnum \<Rightarrow> bool" where
  "is_WorldClimQuantity (Quantity q) = True"
| "is_WorldClimQuantity (Bio b) = False"

text \<open>
  The object's attributes. \<^verbatim>\<open>self.value\<close> and \<^verbatim>\<open>self.typ\<close> are always set; \<^verbatim>\<open>self.month\<close> is
  set on the \<^verbatim>\<open>'clim'\<close> branch only, so a \<^verbatim>\<open>'bio'\<close> object has no such attribute:
  \<open>month = None\<close>.
\<close>

record WorldClimVar =
  var_value :: string
  var_typ :: string
  month :: "int option"

definition WorldClimVar_error :: error where
  "WorldClimVar_error =
     ValueError (''Quantity needs month. Bio does not use month. '' @
                 ''Received {var.value} {month}'')"

definition WorldClimVar_init :: "WorldClimEnum \<Rightarrow> int option \<Rightarrow> error + WorldClimVar" where
  "WorldClimVar_init var mth =
     (if mth = None \<and> is_WorldClimBio var then
        Inr \<lparr>var_value = enum_value var, var_typ = ''bio'', month = None\<rparr>
      else if mth \<noteq> None \<and> (1 \<le> the mth \<and> the mth \<le> 12) \<and> is_WorldClimQuantity var then
        Inr \<lparr>var_value = enum_value var, var_typ = ''clim'', month = mth\<rparr>
      else Inl WorldClimVar_error)"

text \<open>The module-level lists of every variable, built with the constructor when the
  module is imported (an exception there would fail the import).\<close>

definition WorldClimQuantityVarAll :: "error + WorldClimVar list" where
  "WorldClimQuantityVarAll =
     sequence (concat (map (\<lambda>v. map (\<lambda>m. WorldClimVar_init (Quantity v) (Some (int m))) [1..<13])
                           WorldClimQuantityAll))"

definition WorldClimBioVarAll :: "error + WorldClimVar list" where
  "WorldClimBioVarAll = sequence (map (\<lambda>wcb. WorldClimVar_init (Bio wcb) None) WorldClimBioAll)"

definition WorldClimVarAll :: "error + WorldClimVar list" where
  "WorldClimVarAll =
     (case WorldClimQuantityVarAll of
        Inl e \<Rightarrow> Inl e
      | Inr qs \<Rightarrow> (case WorldClimBioVarAll of Inl e \<Rightarrow> Inl e | Inr bs \<Rightarrow> Inr (qs @ bs)))"

subsection \<open>Affine transforms, bounding boxes and arrays\<close>

text \<open>\<^verbatim>\<open>rio.Affine(a, b, c, d, e, f)\<close>: pixel \<open>(col, row)\<close> goes to
  \<open>(a * col + b * row + c, d * col + e * row + f)\<close>.\<close>

datatype Affine =
  Affine (aff_a: real) (aff_b: real) (aff_c: real) (aff_d: real) (aff_e: real) (aff_f: real)

text \<open>\<^verbatim>\<open>rasterio.coords.BoundingBox\<close>, a named tuple of four floats.\<close>

record BoundingBox =
  bbox_left :: real
  bbox_bottom :: real
  bbox_right :: real
  bbox_top :: real

text \<open>A rasterio window \<^verbatim>\<open>((row_start, row_stop), (col_start, col_stop))\<close>.\<close>

type_synonym window = "(int \<times> int) \<times> (int \<times> int)"

text \<open>
  Modelled from the spec: the \<^verbatim>\<open>affine\<close> package (\<^verbatim>\<open>transform * (col, row)\<close>,
  \<^verbatim>\<open>~transform\<close>) and \<^verbatim>\<open>rasterio.transform.rowcol\<close> are libraries, not under src/. The spec
  (4.1): the coordinates are converted "via the inverse of the affine transform", and the
  rounding operator \<open>op\<close> is applied to each resulting row and column. Inverting a
  transform whose determinant is zero raises.
\<close>

fun affine_apply :: "Affine \<Rightarrow> real \<times> real \<Rightarrow> real \<times> real" where
  "affine_apply (Affine a b c d e f) (x, y) = (a * x + b * y + c, d * x + e * y + f)"

fun determinant :: "Affine \<Rightarrow> real" where
  "determinant (Affine a b c d e f) = a * e - b * d"

fun affine_invert :: "Affine \<Rightarrow> error + Affine" where
  "affine_invert (Affine a b c d e f) =
     (if a * e - b * d = 0 then Inl TransformNotInvertibleError
      else let idet = 1 / (a * e - b * d);
               ra = e * idet; rb = - b * idet; rd = - d * idet; re = a * idet
           in Inr (Affine ra rb (- c * ra - f * rb) rd re (- c * rd - f * re)))"

definition rowcol ::
  "Affine \<Rightarrow> real list \<Rightarrow> real list \<Rightarrow> (real \<Rightarrow> int) \<Rightarrow> error + (int list \<times> int list)" where
  "rowcol t xs ys op =
     (case affine_invert t of
        Inl e \<Rightarrow> Inl e
      | Inr invtransform \<Rightarrow>
          let pts = map (affine_apply invtransform) (zip xs ys)
          in Inr (map (\<lambda>p. op (snd p)) pts, map (\<lambda>p. op (fst p)) pts))"

text \<open>
  numpy arrays, as far as the code uses them: a 2-D array is its shape and its cells in
  row-major order; a 3-D array is the shape of one layer and the list of its layers, so
  that its first dimension is the number of layers.
\<close>

record ndarray2 =
  rows2 :: nat
  cols2 :: nat
  data2 :: "real list"

record ndarray3 =
  rows3 :: nat
  cols3 :: nat
  layers :: "real list list"

definition shape2 :: "ndarray2 \<Rightarrow> nat \<times> nat" where
  "shape2 arr = (rows2 arr, cols2 arr)"

definition shape3 :: "ndarray3 \<Rightarrow> nat \<times> nat \<times> nat" where
  "shape3 arr = (length (layers arr), rows3 arr, cols3 arr)"

text \<open>\<^verbatim>\<open>arr[i, :, :]\<close> for a non-negative \<open>i\<close>.\<close>

definition layer :: "ndarray3 \<Rightarrow> nat \<Rightarrow> error + ndarray2" where
  "layer arr i =
     (if i < length (layers arr)
      then Inr \<lparr>rows2 = rows3 arr, cols2 = cols3 arr, data2 = layers arr ! i\<rparr>
      else Inl IndexError)"

text \<open>\<^verbatim>\<open>np.stack(arrays, axis=0)\<close>: raises on an empty list and on arrays of different
  shapes.\<close>

definition np_stack :: "ndarray2 list \<Rightarrow> error + ndarray3" where
  "np_stack arrays =
     (case arrays of
        [] \<Rightarrow> Inl (ValueError ''need at least one array to stack'')
      | a0 # rest \<Rightarrow>
          if list_all (\<lambda>arr. shape2 arr = shape2 a0) rest
          then Inr \<lparr>rows3 = rows2 a0, cols3 = cols2 a0, layers = map data2 arrays\<rparr>
          else Inl (ValueError ''all input arrays must have the same shape''))"

text \<open>\<^verbatim>\<open>np.zeros((n, size_y, size_x))\<close>.\<close>

definition np_zeros :: "nat \<Rightarrow> int \<Rightarrow> int \<Rightarrow> error + ndarray3" where
  "np_zeros n size_y size_x =
     (if size_y < 0 \<or> size_x < 0 then Inl (ValueError ''negative dimensions are not allowed'')
      else Inr \<lparr>rows3 = nat size_y, cols3 = nat size_x,
                layers = replicate n (replicate (nat size_y * nat size_x) 0)\<rparr>)"

text \<open>\<^verbatim>\<open>arr.astype(dtype)\<close>: the cast of the numeric type is a function on the cells.\<close>

definition astype :: "ndarray3 \<Rightarrow> (real \<Rightarrow> real) \<Rightarrow> ndarray3" where
  "astype arr dtype = arr\<lparr>layers := map (map dtype) (layers arr)\<rparr>"

text \<open>
  \<^verbatim>\<open>np.linspace(start, stop, num)\<close> with the default \<^verbatim>\<open>endpoint=True\<close>, as numpy computes
  it: \<^verbatim>\<open>arange(0, num) * step + start\<close> with \<^verbatim>\<open>step = (stop - start) / (num - 1)\<close>, the last
  element then overwritten with \<open>stop\<close> when \<open>num > 1\<close>; for \<open>num = 1\<close> the only element is
  \<open>start\<close>.
\<close>

definition np_linspace :: "real \<Rightarrow> real \<Rightarrow> int \<Rightarrow> error + real list" where
  "np_linspace start stop num =
     (if num < 0 then Inl (ValueError ''Number of samples must be non-negative'')
      else let n = nat num;
               delta = stop - start;
               y = map real [0..<n];
               y = (if 1 < n then map (\<lambda>v. v * (delta / real (n - 1))) y
                    else map (\<lambda>v. v * delta) y);
               y = map (\<lambda>v. v + start) y
           in Inr (if 1 < n then y[n - 1 := stop] else y))"

subsection \<open>WorldClimData\<close>

text \<open>
  The attributes of a \<^verbatim>\<open>WorldClimData\<close> object. \<^verbatim>\<open>__init__\<close> calls \<^verbatim>\<open>get_file_path\<close> on the
  object when only the first five are assigned, so the path methods are defined on every
  extension of the record of those five.
\<close>

record WorldClimPaths =
  wcdir :: string
  wcprefix :: string
  wc_crs :: string
  wcres :: string
  wc_resolution :: real

record WorldClimData = WorldClimPaths +
  climfiles :: "string list"
  biofiles :: "string list"
  transform :: Affine

text \<open>The decimal digits of a natural number, and Python's format \<^verbatim>\<open>{n:02}\<close> of an
  integer: zero-padded to width 2, the sign of a negative number counting in the width.\<close>

fun decimal :: "nat \<Rightarrow> string" where
  "decimal n =
     (if n < 10 then [''0123456789'' ! n]
      else decimal (n div 10) @ [''0123456789'' ! (n mod 10)])"

definition fmt02 :: "int \<Rightarrow> string" where
  "fmt02 n =
     (if n < 0 then ''-'' @ decimal (nat (- n))
      else if n < 10 then ''0'' @ decimal (nat n)
      else decimal (nat n))"

definition bio_names :: "(string \<times> string) list" where
  "bio_names = map (\<lambda>(idx, wcb). (bio_value wcb, fmt02 (int idx))) (enumerate 1 WorldClimBioAll)"

definition get_var_name :: "'a WorldClimPaths_scheme \<Rightarrow> WorldClimVar \<Rightarrow> error + string" where
  "get_var_name self var =
     (if var_typ var = ''bio'' then
        (case map_of bio_names (var_value var) of
           None \<Rightarrow> Inl (KeyError (var_value var))
         | Some idx \<Rightarrow> Inr (''bio_'' @ wcres self @ ''_'' @ idx))
      else
        (case month var of
           None \<Rightarrow> Inl (AttributeError ''month'')
         | Some m \<Rightarrow> Inr (wcres self @ ''_'' @ var_value var @ ''_'' @ fmt02 m)))"

definition get_file_path :: "'a WorldClimPaths_scheme \<Rightarrow> WorldClimVar \<Rightarrow> error + string" where
  "get_file_path self var =
     (case get_var_name self var of
        Inl e \<Rightarrow> Inl e
      | Inr var_name \<Rightarrow> Inr (wcdir self @ ''/'' @ wcprefix self @ ''_'' @ var_name @ ''.tif''))"

text \<open>
  \<^verbatim>\<open>WorldClimData.__init__\<close>. \<open>open_transform path\<close> is what
  \<^verbatim>\<open>rio.open(path).transform\<close> gives: the transform stored in the file, or the exception of
  the open. \<^verbatim>\<open>self.climfiles[0]\<close> raises IndexError on an empty list.
\<close>

definition bind_var :: "error + WorldClimVar \<Rightarrow> (WorldClimVar \<Rightarrow> error + 'b) \<Rightarrow> error + 'b" where
  "bind_var r k = (case r of Inl e \<Rightarrow> Inl e | Inr v \<Rightarrow> k v)"

definition WorldClimData_init :: "(string \<Rightarrow> error + Affine) \<Rightarrow> string \<Rightarrow> error + WorldClimData" where
  "WorldClimData_init open_transform dir =
     (let self0 = \<lparr>wcdir = dir, wcprefix = ''wc2.0'', wc_crs = ''+proj=latlong'',
                    wcres = ''30s'', wc_resolution = 30 / 60 / 60\<rparr>
      in case sequence (concat (map (\<lambda>m. map (\<lambda>cv. bind_var (WorldClimVar_init (Quantity cv) (Some (int m)))
                                                       (get_file_path self0))
                                            WorldClimQuantityAll)
                                [1..<13])) of
           Inl e \<Rightarrow> Inl e
         | Inr cfiles \<Rightarrow>
             (case sequence (map (\<lambda>b. bind_var (WorldClimVar_init (Bio b) None) (get_file_path self0))
                                 WorldClimBioAll) of
                Inl e \<Rightarrow> Inl e
              | Inr bfiles \<Rightarrow>
                  (case cfiles of
                     [] \<Rightarrow> Inl IndexError
                   | file0 # _ \<Rightarrow>
                       (case open_transform file0 of
                          Inl e \<Rightarrow> Inl e
                        | Inr ds \<Rightarrow>
                            Inr \<lparr>wcdir = dir, wcprefix = ''wc2.0'', wc_crs = ''+proj=latlong'',
                                 wcres = ''30s'', wc_resolution = 30 / 60 / 60,
                                 climfiles = cfiles, biofiles = bfiles,
                                 transform =
                                   Affine (aff_a ds) (aff_b ds) (aff_c ds - aff_a ds / 2)
                                          (aff_d ds) (aff_e ds) (aff_f ds - aff_e ds / 2)\<rparr>))))"

text \<open>
  The pixel window of \<^verbatim>\<open>crop_to_bbox\<close>: its first nine lines, up to the \<^verbatim>\<open>print\<close>. The two
  calls of \<^verbatim>\<open>rowcol\<close> are unpacked as \<^verbatim>\<open>(top, bottom), (left, right)\<close>.
\<close>

definition crop_window :: "Affine \<Rightarrow> BoundingBox \<Rightarrow> error + window" where
  "crop_window t bbox =
     (case rowcol t [bbox_left bbox, bbox_right bbox] [bbox_top bbox, bbox_bottom bbox] floor of
        Inl e \<Rightarrow> Inl e
      | Inr rc_f \<Rightarrow>
          (case rowcol t [bbox_left bbox, bbox_right bbox] [bbox_top bbox, bbox_bottom bbox]
                  ceiling of
             Inl e \<Rightarrow> Inl e
           | Inr rc_c \<Rightarrow>
               (case (rc_f, rc_c) of
                  (([top_f, bottom_f], [left_f, right_f]),
                   ([top_c, bottom_c], [left_c, right_c])) \<Rightarrow>
                    let left = min (min left_c right_c) (min left_f right_f);
                        right = max (max left_c right_c) (max left_f right_f);
                        bottom = max (max bottom_c top_c) (max bottom_f top_f);
                        top = min (min bottom_c top_c) (min bottom_f top_f)
                    in Inr ((top, bottom), (left, right))
                | _ \<Rightarrow> Inl (ValueError ''not enough values to unpack''))))"

text \<open>
  \<^verbatim>\<open>crop_to_bbox\<close>. \<open>read_window imfile w\<close> is what
  \<^verbatim>\<open>rio.open(imfile).read(window=w)\<close> gives: a 3-D array of the file's bands over the window,
  or the exception of the open or of the read. The \<^verbatim>\<open>print\<close> of the window is not modelled.
\<close>

definition crop_to_bbox ::
  "WorldClimData \<Rightarrow> (string \<Rightarrow> window \<Rightarrow> error + ndarray3) \<Rightarrow> string \<Rightarrow> BoundingBox
     \<Rightarrow> error + ndarray3" where
  "crop_to_bbox self read_window imfile bbox =
     (case crop_window (transform self) bbox of
        Inl e \<Rightarrow> Inl e
      | Inr w \<Rightarrow> read_window imfile w)"

text \<open>\<^verbatim>\<open>get_wc_for_bbox\<close>: the two list comprehensions run one after the other, each
  stopping at its first exception.\<close>

definition get_wc_for_bbox ::
  "WorldClimData \<Rightarrow> (string \<Rightarrow> window \<Rightarrow> error + ndarray3) \<Rightarrow> BoundingBox
     \<Rightarrow> WorldClimVar list option \<Rightarrow> error + (ndarray3 \<times> Affine)" where
  "get_wc_for_bbox self read_window bbox wc_vars =
     (case (case wc_vars of None \<Rightarrow> WorldClimVarAll | Some vs \<Rightarrow> Inr vs) of
        Inl e \<Rightarrow> Inl e
      | Inr vs \<Rightarrow>
          (case sequence (map (get_file_path self) vs) of
             Inl e \<Rightarrow> Inl e
           | Inr files \<Rightarrow>
               (case sequence (map (\<lambda>wc_file.
                                      case crop_to_bbox self read_window wc_file bbox of
                                        Inl e \<Rightarrow> Inl e
                                      | Inr img \<Rightarrow> layer img 0)
                                   files) of
                  Inl e \<Rightarrow> Inl e
                | Inr wcvars \<Rightarrow>
                    (case np_stack wcvars of
                       Inl e \<Rightarrow> Inl e
                     | Inr stack \<Rightarrow>
                         Inr (stack,
                              Affine (aff_a (transform self)) (aff_b (transform self))
                                     (bbox_left bbox)
                                     (aff_d (transform self)) (aff_e (transform self))
                                     (bbox_top bbox))))))"

text \<open>
  \<^verbatim>\<open>read_as_numpy\<close>. Three collaborators are parameters:
  \<^item> \<open>latlon_bbox\<close> is \<^verbatim>\<open>compute_latlon_bbox_from_region\<close> of \<^verbatim>\<open>sensorsio/utils.py\<close>, which is
    not under src/;
  \<^item> \<open>read_window\<close>, as in \<^verbatim>\<open>crop_to_bbox\<close>;
  \<^item> \<open>reproject\<close> is \<^verbatim>\<open>rasterio.warp.reproject\<close>, given the source, the destination array,
    both transforms, both coordinate systems and the resampling algorithm, and returning
    the destination array and its transform.
  A division of floats by a zero \<open>resolution\<close> raises ZeroDivisionError.
\<close>

definition read_as_numpy ::
  "WorldClimData
     \<Rightarrow> (BoundingBox \<Rightarrow> string \<Rightarrow> error + BoundingBox)
     \<Rightarrow> (string \<Rightarrow> window \<Rightarrow> error + ndarray3)
     \<Rightarrow> (ndarray3 \<Rightarrow> ndarray3 \<Rightarrow> Affine \<Rightarrow> string \<Rightarrow> Affine \<Rightarrow> string \<Rightarrow> 'alg
          \<Rightarrow> error + (ndarray3 \<times> Affine))
     \<Rightarrow> WorldClimVar list option \<Rightarrow> string option \<Rightarrow> real \<Rightarrow> BoundingBox option \<Rightarrow> 'alg
     \<Rightarrow> (real \<Rightarrow> real)
     \<Rightarrow> error + (ndarray3 \<times> real list \<times> real list \<times> string \<times> Affine)" where
  "read_as_numpy self latlon_bbox read_window reproject wc_vars crs resolution bounds
       algorithm dtype =
     (case bounds of
        None \<Rightarrow> Inl AssertionError
      | Some bounds \<Rightarrow>
          let crs = (case crs of None \<Rightarrow> wc_crs self | Some s \<Rightarrow> s) in
          (case (case wc_vars of None \<Rightarrow> WorldClimVarAll | Some vs \<Rightarrow> Inr vs) of
             Inl e \<Rightarrow> Inl e
           | Inr wc_vars \<Rightarrow>
               let dst_transform =
                     Affine resolution 0 (bbox_left bounds) 0 (- resolution) (bbox_top bounds)
               in if resolution = 0 then Inl ZeroDivisionError
                  else
                    let dst_size_x = \<lceil>(bbox_right bounds - bbox_left bounds) / resolution\<rceil>;
                        dst_size_y = \<lceil>(bbox_top bounds - bbox_bottom bounds) / resolution\<rceil>
                    in (case latlon_bbox bounds crs of
                          Inl e \<Rightarrow> Inl e
                        | Inr bbox \<Rightarrow>
                            (case get_wc_for_bbox self read_window bbox (Some wc_vars) of
                               Inl e \<Rightarrow> Inl e
                             | Inr (wc_bbox, src_transform) \<Rightarrow>
                                 (case np_zeros (fst (shape3 wc_bbox)) dst_size_y dst_size_x of
                                    Inl e \<Rightarrow> Inl e
                                  | Inr dst_wc \<Rightarrow>
                                      (case reproject wc_bbox dst_wc src_transform (wc_crs self)
                                              dst_transform crs algorithm of
                                         Inl e \<Rightarrow> Inl e
                                       | Inr (dst_wc, dst_wc_transform) \<Rightarrow>
                                           let dst_wc = astype dst_wc dtype in
                                           (case np_linspace
                                                   (bbox_left bounds + resolution / 2)
                                                   (bbox_right bounds - resolution / 2)
                                                   dst_size_x of
                                              Inl e \<Rightarrow> Inl e
                                            | Inr xcoords \<Rightarrow>
                                                (case np_linspace
                                                        (bbox_top bounds - resolution / 2)
                                                        (bbox_bottom bounds + resolution / 2)
                                                        dst_size_y of
                                                   Inl e \<Rightarrow> Inl e
                                                 | Inr ycoords \<Rightarrow>
                                                     Inr (dst_wc, xcoords, ycoords, crs,
                                                          dst_wc_transform)))))))))"

subsection \<open>Sentinel-2: the path builders\<close>

datatype Band = B2 | B3 | B4 | B5 | B6 | B7 | B8 | B8A | B9 | B10 | B11 | B12

fun band_value :: "Band \<Rightarrow> string" where
  "band_value B2 = ''B2''"
| "band_value B3 = ''B3''"
| "band_value B4 = ''B4''"
| "band_value B5 = ''B5''"
| "band_value B6 = ''B6''"
| "band_value B7 = ''B7''"
| "band_value B8 = ''B8''"
| "band_value B8A = ''B8A''"
| "band_value B9 = ''B9''"
| "band_value B10 = ''B10''"
| "band_value B11 = ''B11''"
| "band_value B12 = ''B12''"

datatype BandType = FRE | SRE

fun band_type_value :: "BandType \<Rightarrow> string" where
  "band_type_value FRE = ''FRE''"
| "band_type_value SRE = ''SRE''"

text \<open>Of a \<^verbatim>\<open>Sentinel2\<close> object the path builders read \<^verbatim>\<open>self.product_dir\<close> only; the other
  attributes of the constructor are left out.\<close>

record Sentinel2 =
  product_dir :: string

text \<open>
  \<open>glob pattern\<close> is \<^verbatim>\<open>glob.glob(pattern)\<close> on the file system of the call: the list of
  the paths that match, in the order glob returns them.

  \<^verbatim>\<open>build_xml_path\<close> has no \<^verbatim>\<open>return\<close> statement: when it does not raise it returns \<^verbatim>\<open>None\<close>.
\<close>

definition build_xml_path :: "(string \<Rightarrow> string list) \<Rightarrow> Sentinel2 \<Rightarrow> error + string option" where
  "build_xml_path glob self =
     (let p = glob (product_dir self @ ''/*MTD_ALL.xml'')
      in if length p = 0
         then Inl (FileNotFoundError
                     (''Could not find root XML file in product directory '' @ product_dir self))
         else Inr None)"

definition build_band_path ::
  "(string \<Rightarrow> string list) \<Rightarrow> Sentinel2 \<Rightarrow> Band \<Rightarrow> BandType \<Rightarrow> error + string" where
  "build_band_path glob self band band_type =
     (let p = glob (product_dir self @ ''/*'' @ band_type_value band_type @ ''_'' @
                    band_value band @ ''.tif'')
      in if length p = 0
         then Inl (FileNotFoundError
                     (''Could not find band '' @ band_value band @ '' of type '' @
                      band_type_value band_type @ '' in product directory '' @
                      product_dir self))
         else Inr (p ! 0))"

subsection \<open>The geographic extent of a pixel window\<close>

text \<open>
  The terms of the properties, not code of the repository: the corners
  \<open>(col_start, row_start)\<close> and \<open>(col_stop, row_stop)\<close> of a pixel window mapped through a
  transform, as the box they span.
\<close>

fun window_bounds :: "Affine \<Rightarrow> window \<Rightarrow> BoundingBox" where
  "window_bounds t ((row_start, row_stop), (col_start, col_stop)) =
     (case (affine_apply t (of_int col_start, of_int row_start),
            affine_apply t (of_int col_stop, of_int row_stop)) of
        ((x0, y0), (x1, y1)) \<Rightarrow>
          \<lparr>bbox_left = min x0 x1, bbox_bottom = min y0 y1,
           bbox_right = max x0 x1, bbox_top = max y0 y1\<rparr>)"

subsection \<open>Concrete inputs\<close>

text \<open>
  A catalog over a half-degree grid of the globe, a reader that returns one band of the
  shape of the window it is asked for (each cell holding the length of the file's path, so
  that two files give different data), two variables and a bounding box that lies across
  pixel boundaries. The properties below are evaluated on them.
\<close>

definition example_catalog :: WorldClimData where
  "example_catalog =
     \<lparr>wcdir = ''/wc'', wcprefix = ''wc2.0'', wc_crs = ''+proj=latlong'', wcres = ''30s'',
      wc_resolution = 30 / 60 / 60,
      climfiles = [''/wc/wc2.0_30s_prec_01.tif''], biofiles = [''/wc/wc2.0_bio_30s_01.tif''],
      transform = Affine (1/2) 0 (- 180) 0 (- 1/2) 90\<rparr>"

definition example_reader :: "string \<Rightarrow> window \<Rightarrow> error + ndarray3" where
  "example_reader path w =
     (case w of
        ((row_start, row_stop), (col_start, col_stop)) \<Rightarrow>
          Inr \<lparr>rows3 = nat (row_stop - row_start), cols3 = nat (col_stop - col_start),
               layers = [replicate (nat (row_stop - row_start) * nat (col_stop - col_start))
                                   (real (length path))]\<rparr>)"

definition example_tavg_08 :: WorldClimVar where
  "example_tavg_08 = \<lparr>var_value = ''tavg'', var_typ = ''clim'', month = Some 8\<rparr>"

definition example_bio_01 :: WorldClimVar where
  "example_bio_01 = \<lparr>var_value = ''Annual_Mean_Temp'', var_typ = ''bio'', month = None\<rparr>"

definition example_bbox :: BoundingBox where
  "example_bbox = \<lparr>bbox_left = 5/4, bbox_bottom = 169/4, bbox_right = 7/4, bbox_top = 171/4\<rparr>"

text \<open>
  For \<open>read_as_numpy\<close>: the destination bounds of the end-to-end scenario, a
  \<open>compute_latlon_bbox_from_region\<close> that answers with the box above, a reprojection that
  returns the destination array it is given, and a reader that fails on every file. For
  the Sentinel-2 path builders: a product directory, and a file system where two files
  match the FRE band B2, one file matches the root XML pattern, and nothing else matches.
\<close>

definition example_reproject ::
  "ndarray3 \<Rightarrow> ndarray3 \<Rightarrow> Affine \<Rightarrow> string \<Rightarrow> Affine \<Rightarrow> string \<Rightarrow> unit
     \<Rightarrow> error + (ndarray3 \<times> Affine)" where
  "example_reproject source destination src_transform src_crs dst_transform dst_crs resampling =
     Inr (destination, dst_transform)"

definition example_bounds :: BoundingBox where
  "example_bounds = \<lparr>bbox_left = 0, bbox_bottom = 0, bbox_right = 1000, bbox_top = 1000\<rparr>"

definition example_latlon_bbox :: "BoundingBox \<Rightarrow> string \<Rightarrow> error + BoundingBox" where
  "example_latlon_bbox bounds crs = Inr example_bbox"

definition example_product :: Sentinel2 where
  "example_product =
     \<lparr>product_dir = ''/data/SENTINEL2A_20200101-105855-732_L2A_T31TCJ_C_V2-2''\<rparr>"

definition example_glob :: "string \<Rightarrow> string list" where
  "example_glob pattern =
     (if pattern = ''/data/SENTINEL2A_20200101-105855-732_L2A_T31TCJ_C_V2-2/*FRE_B2.tif''
      then [''/data/SENTINEL2A_20200101-105855-732_L2A_T31TCJ_C_V2-2/a_FRE_B2.tif'',
            ''/data/SENTINEL2A_20200101-105855-732_L2A_T31TCJ_C_V2-2/b_FRE_B2.tif'']
      else if pattern = ''/data/SENTINEL2A_20200101-105855-732_L2A_T31TCJ_C_V2-2/*MTD_ALL.xml''
      then [''/data/SENTINEL2A_20200101-105855-732_L2A_T31TCJ_C_V2-2/a_MTD_ALL.xml'']
      else [])"

definition failing_reader :: "string \<Rightarrow> window \<Rightarrow> error + ndarray3" where
  "failing_reader path w = Inl (RasterioIOError path)"

section \<open>Properties\<close>

subsection \<open>C4: construction of a WorldClimVar\<close>

text \<open>
  C4. Constructing a \<open>WorldClimVar\<close> succeeds exactly when the type/month pairing is
  consistent. A bio variable with \<open>month = None\<close> succeeds and carries no month; a climate
  quantity with a month in \<open>[1, 12]\<close> succeeds and carries that month. Every other
  combination raises the \<open>ValueError\<close> of the constructor: a bio variable with a month, a
  quantity without one, and a quantity with month 0 or 13 among them.
\<close>

theorem WorldClimVar_init_consistent_pairing:
  "((\<exists>w. WorldClimVar_init var mth = Inr w) \<longleftrightarrow>
      (is_WorldClimBio var \<and> mth = None) \<or>
      (is_WorldClimQuantity var \<and> (\<exists>k. mth = Some k \<and> 1 \<le> k \<and> k \<le> 12)))
   \<and> ((\<nexists>w. WorldClimVar_init var mth = Inr w) \<longleftrightarrow>
          WorldClimVar_init var mth = Inl WorldClimVar_error)
   \<and> (\<forall>w. WorldClimVar_init var mth = Inr w \<longleftrightarrow>
          w = \<lparr>var_value = enum_value var,
               var_typ = (if is_WorldClimBio var then ''bio'' else ''clim''),
               month = mth\<rparr>
          \<and> (if is_WorldClimBio var then mth = None
             else \<exists>k. mth = Some k \<and> 1 \<le> k \<and> k \<le> 12))
   \<and> WorldClimVar_init (Bio b) (Some k) = Inl WorldClimVar_error
   \<and> WorldClimVar_init (Quantity q) None = Inl WorldClimVar_error
   \<and> WorldClimVar_init (Quantity q) (Some 0) = Inl WorldClimVar_error
   \<and> WorldClimVar_init (Quantity q) (Some 13) = Inl WorldClimVar_error"
  by (cases var; cases mth) (auto simp: WorldClimVar_init_def)

subsection \<open>The pixel window of an axis-aligned transform\<close>

lemma affine_invert_axis_aligned:
  assumes "a \<noteq> 0" "e \<noteq> 0"
  shows "affine_invert (Affine a 0 c 0 e f) = Inr (Affine (1 / a) 0 (- c / a) 0 (1 / e) (- f / e))"
  using assms by (simp add: Let_def)

lemma rowcol_axis_aligned:
  assumes "a \<noteq> 0" "e \<noteq> 0"
  shows "rowcol (Affine a 0 c 0 e f) [x1, x2] [y1, y2] op =
           Inr ([op ((y1 - f) / e), op ((y2 - f) / e)], [op ((x1 - c) / a), op ((x2 - c) / a)])"
  using assms by (simp add: rowcol_def affine_invert_axis_aligned diff_divide_distrib)

lemma crop_window_axis_aligned:
  assumes "a \<noteq> 0" "e \<noteq> 0"
  shows "crop_window (Affine a 0 c 0 e f) bbox =
     Inr ((min (min \<lceil>(bbox_bottom bbox - f) / e\<rceil> \<lceil>(bbox_top bbox - f) / e\<rceil>)
               (min \<lfloor>(bbox_bottom bbox - f) / e\<rfloor> \<lfloor>(bbox_top bbox - f) / e\<rfloor>),
           max (max \<lceil>(bbox_bottom bbox - f) / e\<rceil> \<lceil>(bbox_top bbox - f) / e\<rceil>)
               (max \<lfloor>(bbox_bottom bbox - f) / e\<rfloor> \<lfloor>(bbox_top bbox - f) / e\<rfloor>)),
          (min (min \<lceil>(bbox_left bbox - c) / a\<rceil> \<lceil>(bbox_right bbox - c) / a\<rceil>)
               (min \<lfloor>(bbox_left bbox - c) / a\<rfloor> \<lfloor>(bbox_right bbox - c) / a\<rfloor>),
           max (max \<lceil>(bbox_left bbox - c) / a\<rceil> \<lceil>(bbox_right bbox - c) / a\<rceil>)
               (max \<lfloor>(bbox_left bbox - c) / a\<rfloor> \<lfloor>(bbox_right bbox - c) / a\<rfloor>)))"
  using assms by (simp add: crop_window_def rowcol_axis_aligned)

lemma envelope_bounds:
  fixes u1 u2 :: real
  defines "lo \<equiv> min (min \<lceil>u1\<rceil> \<lceil>u2\<rceil>) (min \<lfloor>u1\<rfloor> \<lfloor>u2\<rfloor>)"
    and "hi \<equiv> max (max \<lceil>u1\<rceil> \<lceil>u2\<rceil>) (max \<lfloor>u1\<rfloor> \<lfloor>u2\<rfloor>)"
  shows "of_int lo \<le> min u1 u2" and "min u1 u2 - of_int lo < 1"
    and "max u1 u2 \<le> of_int hi" and "of_int hi - max u1 u2 < 1"
    and "lo \<le> hi"
  unfolding lo_def hi_def by (auto simp: min_def max_def; linarith)+

lemma axis_cover:
  fixes k org p1 p2 :: real
  assumes k: "k \<noteq> 0"
  defines "u1 \<equiv> (p1 - org) / k" and "u2 \<equiv> (p2 - org) / k"
  defines "lo \<equiv> min (min \<lceil>u1\<rceil> \<lceil>u2\<rceil>) (min \<lfloor>u1\<rfloor> \<lfloor>u2\<rfloor>)"
    and "hi \<equiv> max (max \<lceil>u1\<rceil> \<lceil>u2\<rceil>) (max \<lfloor>u1\<rfloor> \<lfloor>u2\<rfloor>)"
  defines "x0 \<equiv> k * of_int lo + org" and "x1 \<equiv> k * of_int hi + org"
  shows "min x0 x1 \<le> min p1 p2 \<and> max p1 p2 \<le> max x0 x1 \<and>
         min p1 p2 - min x0 x1 < \<bar>k\<bar> \<and> max x0 x1 - max p1 p2 < \<bar>k\<bar>"
proof -
  have p: "p1 = k * u1 + org" "p2 = k * u2 + org"
    using k by (simp_all add: u1_def u2_def)
  note b = envelope_bounds[of u1 u2, folded lo_def hi_def]
  show ?thesis
  proof (cases "0 < k")
    case True
    have mn: "min p1 p2 = k * min u1 u2 + org" and mx: "max p1 p2 = k * max u1 u2 + org"
      using True by (auto simp: p min_def max_def)
    have x: "min x0 x1 = x0" "max x0 x1 = x1"
      using True b(5) by (auto simp: x0_def x1_def min_def max_def)
    have "k * of_int lo \<le> k * min u1 u2" "k * max u1 u2 \<le> k * of_int hi"
      using True b by (simp_all)
    moreover have "k * (min u1 u2 - of_int lo) < k * 1" "k * (of_int hi - max u1 u2) < k * 1"
      using True b by (simp_all only: mult_less_cancel_left_pos)
    ultimately show ?thesis
      using True unfolding mn mx x x0_def x1_def by (simp add: algebra_simps)
  next
    case False
    then have neg: "k < 0" using k by simp
    have mn: "min p1 p2 = k * max u1 u2 + org" and mx: "max p1 p2 = k * min u1 u2 + org"
      using neg by (auto simp: p min_def max_def)
    have x: "min x0 x1 = x1" "max x0 x1 = x0"
      using neg b(5) by (auto simp: x0_def x1_def min_def max_def)
    have "k * min u1 u2 \<le> k * of_int lo" "k * of_int hi \<le> k * max u1 u2"
      using neg b by (simp_all)
    moreover have "- k * (min u1 u2 - of_int lo) < - k * 1" "- k * (of_int hi - max u1 u2) < - k * 1"
      using neg b by (simp_all only: mult_less_cancel_left_pos neg_0_less_iff_less)
    ultimately show ?thesis
      using neg unfolding mn mx x x0_def x1_def by (simp add: algebra_simps)
  qed
qed

lemma axis_exact:
  fixes k org p1 p2 :: real
  assumes k: "k \<noteq> 0" and p1: "p1 = k * of_int n1 + org" and p2: "p2 = k * of_int n2 + org"
  defines "u1 \<equiv> (p1 - org) / k" and "u2 \<equiv> (p2 - org) / k"
  defines "lo \<equiv> min (min \<lceil>u1\<rceil> \<lceil>u2\<rceil>) (min \<lfloor>u1\<rfloor> \<lfloor>u2\<rfloor>)"
    and "hi \<equiv> max (max \<lceil>u1\<rceil> \<lceil>u2\<rceil>) (max \<lfloor>u1\<rfloor> \<lfloor>u2\<rfloor>)"
  defines "x0 \<equiv> k * of_int lo + org" and "x1 \<equiv> k * of_int hi + org"
  shows "\<lfloor>u1\<rfloor> = \<lceil>u1\<rceil> \<and> \<lfloor>u2\<rfloor> = \<lceil>u2\<rceil> \<and> min x0 x1 = min p1 p2 \<and> max x0 x1 = max p1 p2"
proof -
  have u: "u1 = of_int n1" "u2 = of_int n2"
    using k by (simp_all add: u1_def u2_def p1 p2)
  have lh: "lo = min n1 n2" "hi = max n1 n2"
    by (simp_all add: lo_def hi_def u)
  have "min x0 x1 = min p1 p2 \<and> max x0 x1 = max p1 p2"
  proof (cases "0 < k")
    case True
    then show ?thesis
      by (auto simp: x0_def x1_def lh p1 p2 min_def max_def)
  next
    case False
    then have "k < 0" using k by simp
    then show ?thesis
      by (auto simp: x0_def x1_def lh p1 p2 min_def max_def)
  qed
  then show ?thesis by (simp add: u)
qed

lemma window_bounds_axis_aligned:
  "window_bounds (Affine a 0 c 0 e f) ((r0, r1), (c0, c1)) =
     \<lparr>bbox_left = min (a * of_int c0 + c) (a * of_int c1 + c),
      bbox_bottom = min (e * of_int r0 + f) (e * of_int r1 + f),
      bbox_right = max (a * of_int c0 + c) (a * of_int c1 + c),
      bbox_top = max (e * of_int r0 + f) (e * of_int r1 + f)\<rparr>"
  by simp

subsection \<open>C1: the pixel window encloses the bounding box\<close>

text \<open>
  C1. For a transform without rotation (\<open>b = d = 0\<close>, non-zero pixel sizes \<open>a\<close> and \<open>e\<close>)
  and every bounding box, \<open>crop_to_bbox\<close> computes a pixel window, and the corners of the
  window mapped back through the transform span a box that covers the requested one, with
  an overshoot of less than one pixel on each edge. When the four edges of the requested
  box are images of integer columns and rows, the floor and the ceiling candidates of
  \<open>rowcol\<close> are the same and the window spans the requested box exactly.
\<close>

theorem crop_window_encloses_bbox:
  assumes "aff_b t = 0" and "aff_d t = 0" and "aff_a t \<noteq> 0" and "aff_e t \<noteq> 0"
  shows "\<exists>w. crop_window t bbox = Inr w \<and>
      bbox_left (window_bounds t w) \<le> min (bbox_left bbox) (bbox_right bbox) \<and>
      max (bbox_left bbox) (bbox_right bbox) \<le> bbox_right (window_bounds t w) \<and>
      bbox_bottom (window_bounds t w) \<le> min (bbox_bottom bbox) (bbox_top bbox) \<and>
      max (bbox_bottom bbox) (bbox_top bbox) \<le> bbox_top (window_bounds t w) \<and>
      min (bbox_left bbox) (bbox_right bbox) - bbox_left (window_bounds t w) < \<bar>aff_a t\<bar> \<and>
      bbox_right (window_bounds t w) - max (bbox_left bbox) (bbox_right bbox) < \<bar>aff_a t\<bar> \<and>
      min (bbox_bottom bbox) (bbox_top bbox) - bbox_bottom (window_bounds t w) < \<bar>aff_e t\<bar> \<and>
      bbox_top (window_bounds t w) - max (bbox_bottom bbox) (bbox_top bbox) < \<bar>aff_e t\<bar> \<and>
      ((\<exists>kl kr kt kb :: int.
          bbox_left bbox = aff_a t * of_int kl + aff_c t \<and>
          bbox_right bbox = aff_a t * of_int kr + aff_c t \<and>
          bbox_top bbox = aff_e t * of_int kt + aff_f t \<and>
          bbox_bottom bbox = aff_e t * of_int kb + aff_f t) \<longrightarrow>
       rowcol t [bbox_left bbox, bbox_right bbox] [bbox_top bbox, bbox_bottom bbox] floor =
         rowcol t [bbox_left bbox, bbox_right bbox] [bbox_top bbox, bbox_bottom bbox] ceiling \<and>
       bbox_left (window_bounds t w) = min (bbox_left bbox) (bbox_right bbox) \<and>
       bbox_right (window_bounds t w) = max (bbox_left bbox) (bbox_right bbox) \<and>
       bbox_bottom (window_bounds t w) = min (bbox_bottom bbox) (bbox_top bbox) \<and>
       bbox_top (window_bounds t w) = max (bbox_bottom bbox) (bbox_top bbox))"
proof -
  obtain a c e f where t: "t = Affine a 0 c 0 e f" and a: "a \<noteq> 0" and e: "e \<noteq> 0"
    using assms by (cases t) auto
  define ul ur ut ub where "ul = (bbox_left bbox - c) / a" and "ur = (bbox_right bbox - c) / a"
    and "ut = (bbox_top bbox - f) / e" and "ub = (bbox_bottom bbox - f) / e"
  define c0 c1 r0 r1
    where "c0 = min (min \<lceil>ul\<rceil> \<lceil>ur\<rceil>) (min \<lfloor>ul\<rfloor> \<lfloor>ur\<rfloor>)"
      and "c1 = max (max \<lceil>ul\<rceil> \<lceil>ur\<rceil>) (max \<lfloor>ul\<rfloor> \<lfloor>ur\<rfloor>)"
      and "r0 = min (min \<lceil>ub\<rceil> \<lceil>ut\<rceil>) (min \<lfloor>ub\<rfloor> \<lfloor>ut\<rfloor>)"
      and "r1 = max (max \<lceil>ub\<rceil> \<lceil>ut\<rceil>) (max \<lfloor>ub\<rfloor> \<lfloor>ut\<rfloor>)"
  define g where "g = window_bounds t ((r0, r1), (c0, c1))"
  have cw: "crop_window t bbox = Inr ((r0, r1), (c0, c1))"
    unfolding t crop_window_axis_aligned[OF a e] c0_def c1_def r0_def r1_def
      ul_def ur_def ut_def ub_def ..
  have g: "bbox_left g = min (a * of_int c0 + c) (a * of_int c1 + c)"
          "bbox_right g = max (a * of_int c0 + c) (a * of_int c1 + c)"
          "bbox_bottom g = min (e * of_int r0 + f) (e * of_int r1 + f)"
          "bbox_top g = max (e * of_int r0 + f) (e * of_int r1 + f)"
    unfolding g_def t window_bounds_axis_aligned by simp_all
  have hx: "bbox_left g \<le> min (bbox_left bbox) (bbox_right bbox) \<and>
            max (bbox_left bbox) (bbox_right bbox) \<le> bbox_right g \<and>
            min (bbox_left bbox) (bbox_right bbox) - bbox_left g < \<bar>a\<bar> \<and>
            bbox_right g - max (bbox_left bbox) (bbox_right bbox) < \<bar>a\<bar>"
    unfolding g c0_def c1_def ul_def ur_def by (rule axis_cover[OF a])
  have hy: "bbox_bottom g \<le> min (bbox_bottom bbox) (bbox_top bbox) \<and>
            max (bbox_bottom bbox) (bbox_top bbox) \<le> bbox_top g \<and>
            min (bbox_bottom bbox) (bbox_top bbox) - bbox_bottom g < \<bar>e\<bar> \<and>
            bbox_top g - max (bbox_bottom bbox) (bbox_top bbox) < \<bar>e\<bar>"
    unfolding g r0_def r1_def ut_def ub_def by (rule axis_cover[OF e])
  have exact: "rowcol t [bbox_left bbox, bbox_right bbox] [bbox_top bbox, bbox_bottom bbox] floor =
         rowcol t [bbox_left bbox, bbox_right bbox] [bbox_top bbox, bbox_bottom bbox] ceiling \<and>
       bbox_left g = min (bbox_left bbox) (bbox_right bbox) \<and>
       bbox_right g = max (bbox_left bbox) (bbox_right bbox) \<and>
       bbox_bottom g = min (bbox_bottom bbox) (bbox_top bbox) \<and>
       bbox_top g = max (bbox_bottom bbox) (bbox_top bbox)"
    if k: "\<exists>kl kr kt kb :: int.
          bbox_left bbox = aff_a t * of_int kl + aff_c t \<and>
          bbox_right bbox = aff_a t * of_int kr + aff_c t \<and>
          bbox_top bbox = aff_e t * of_int kt + aff_f t \<and>
          bbox_bottom bbox = aff_e t * of_int kb + aff_f t"
  proof -
    from k obtain kl kr kt kb :: int where
      k: "bbox_left bbox = a * of_int kl + c" "bbox_right bbox = a * of_int kr + c"
         "bbox_top bbox = e * of_int kt + f" "bbox_bottom bbox = e * of_int kb + f"
      unfolding t by auto
    have ex: "\<lfloor>ul\<rfloor> = \<lceil>ul\<rceil> \<and> \<lfloor>ur\<rfloor> = \<lceil>ur\<rceil> \<and>
              bbox_left g = min (bbox_left bbox) (bbox_right bbox) \<and>
              bbox_right g = max (bbox_left bbox) (bbox_right bbox)"
      unfolding g c0_def c1_def ul_def ur_def by (rule axis_exact[OF a k(1) k(2)])
    have ey: "\<lfloor>ub\<rfloor> = \<lceil>ub\<rceil> \<and> \<lfloor>ut\<rfloor> = \<lceil>ut\<rceil> \<and>
              bbox_bottom g = min (bbox_bottom bbox) (bbox_top bbox) \<and>
              bbox_top g = max (bbox_bottom bbox) (bbox_top bbox)"
      unfolding g r0_def r1_def ut_def ub_def by (rule axis_exact[OF e k(4) k(3)])
    have "rowcol t [bbox_left bbox, bbox_right bbox] [bbox_top bbox, bbox_bottom bbox] floor =
          rowcol t [bbox_left bbox, bbox_right bbox] [bbox_top bbox, bbox_bottom bbox] ceiling"
      unfolding t rowcol_axis_aligned[OF a e]
      using ex ey by (simp add: ul_def ur_def ut_def ub_def)
    with ex ey show ?thesis by simp
  qed
  have ta: "aff_a t = a" "aff_e t = e" by (simp_all add: t)
  show ?thesis
    apply (rule exI[of _ "((r0, r1), (c0, c1))"])
    unfolding g_def[symmetric]
    using cw hx[folded ta(1)] hy[folded ta(2)] exact by blast
qed

theorem crop_window_encloses_bbox_witness:
  "(\<exists>w. crop_window (Affine (1/2) 0 (- 180) 0 (- 1/2) 90)
            \<lparr>bbox_left = 1, bbox_bottom = 40, bbox_right = 3, bbox_top = 43\<rparr> = Inr w \<and>
        window_bounds (Affine (1/2) 0 (- 180) 0 (- 1/2) 90) w =
          \<lparr>bbox_left = 1, bbox_bottom = 40, bbox_right = 3, bbox_top = 43\<rparr>)
   \<and> crop_window (Affine (1/2) 0 (- 180) 0 (- 1/2) 90)
        \<lparr>bbox_left = 1, bbox_bottom = 40, bbox_right = 3, bbox_top = 43\<rparr> =
        Inr ((94, 100), (362, 366))
   \<and> crop_window (Affine (1/2) 0 (- 180) 0 (- 1/2) 90)
        \<lparr>bbox_left = 12/10, bbox_bottom = 401/10, bbox_right = 37/10, bbox_top = 433/10\<rparr> =
        Inr ((93, 100), (362, 368))
   \<and> window_bounds (Affine (1/2) 0 (- 180) 0 (- 1/2) 90) ((93, 100), (362, 368)) =
        \<lparr>bbox_left = 1, bbox_bottom = 40, bbox_right = 4, bbox_top = 87/2\<rparr>"
proof -
  let ?t = "Affine (1/2) 0 (- 180) 0 (- 1/2) 90"
  let ?b = "\<lparr>bbox_left = 1, bbox_bottom = 40, bbox_right = 3, bbox_top = 43\<rparr>"
  have axis: "aff_b ?t = 0" "aff_d ?t = 0" "aff_a ?t \<noteq> 0" "aff_e ?t \<noteq> 0"
    by simp_all
  have aligned: "\<exists>kl kr kt kb :: int.
          bbox_left ?b = aff_a ?t * of_int kl + aff_c ?t \<and>
          bbox_right ?b = aff_a ?t * of_int kr + aff_c ?t \<and>
          bbox_top ?b = aff_e ?t * of_int kt + aff_f ?t \<and>
          bbox_bottom ?b = aff_e ?t * of_int kb + aff_f ?t"
    by (rule exI[of _ 362], rule exI[of _ 366], rule exI[of _ 94], rule exI[of _ 100]) simp
  from crop_window_encloses_bbox[OF axis, of ?b] aligned
  obtain w where w: "crop_window ?t ?b = Inr w"
    "bbox_left (window_bounds ?t w) = min (bbox_left ?b) (bbox_right ?b)"
    "bbox_right (window_bounds ?t w) = max (bbox_left ?b) (bbox_right ?b)"
    "bbox_bottom (window_bounds ?t w) = min (bbox_bottom ?b) (bbox_top ?b)"
    "bbox_top (window_bounds ?t w) = max (bbox_bottom ?b) (bbox_top ?b)"
    by blast
  from w have "\<exists>w. crop_window ?t ?b = Inr w \<and> window_bounds ?t w = ?b"
    by (intro exI[of _ w]) simp
  moreover have "crop_window ?t ?b = Inr ((94, 100), (362, 366))"
    by (simp add: crop_window_def rowcol_def)
  moreover have "crop_window ?t
        \<lparr>bbox_left = 12/10, bbox_bottom = 401/10, bbox_right = 37/10, bbox_top = 433/10\<rparr> =
        Inr ((93, 100), (362, 368))"
    by (simp add: crop_window_def rowcol_def)
  moreover have "window_bounds ?t ((93, 100), (362, 368)) =
        \<lparr>bbox_left = 1, bbox_bottom = 40, bbox_right = 4, bbox_top = 87/2\<rparr>"
    by simp
  ultimately show ?thesis by blast
qed

subsection \<open>C6: the pixel window is well ordered\<close>

lemma affine_invert_total:
  assumes "determinant t \<noteq> 0"
  shows "\<exists>invtransform. affine_invert t = Inr invtransform"
  using assms by (cases t) (simp add: Let_def)

lemma rowcol_two_points:
  assumes "determinant t \<noteq> 0"
  shows "\<exists>r1 r2 c1 c2. \<forall>op. rowcol t [x1, x2] [y1, y2] op = Inr ([op r1, op r2], [op c1, op c2])"
proof -
  from affine_invert_total[OF assms] obtain invtransform
    where inv: "affine_invert t = Inr invtransform" ..
  have "\<forall>op. rowcol t [x1, x2] [y1, y2] op =
          Inr ([op (snd (affine_apply invtransform (x1, y1))),
                op (snd (affine_apply invtransform (x2, y2)))],
               [op (fst (affine_apply invtransform (x1, y1))),
                op (fst (affine_apply invtransform (x2, y2)))])"
    by (simp add: rowcol_def inv)
  then show ?thesis by blast
qed

lemma rowcol_not_invertible:
  assumes "determinant t = 0"
  shows "rowcol t xs ys op = Inl TransformNotInvertibleError"
  using assms by (cases t) (simp add: rowcol_def)

text \<open>
  C6. Whenever the transform can be inverted, \<open>crop_to_bbox\<close> computes a pixel window,
  and every window it computes has \<open>row_start \<le> row_stop\<close> and \<open>col_start \<le> col_stop\<close>,
  wherever the bounding box lies and whatever the order of its edges. A transform that
  cannot be inverted raises before any window is computed.
\<close>

theorem crop_window_well_ordered:
  "(determinant t \<noteq> 0 \<longrightarrow> (\<exists>w. crop_window t bbox = Inr w)) \<and>
   (determinant t = 0 \<longrightarrow> crop_window t bbox = Inl TransformNotInvertibleError) \<and>
   (\<forall>row_start row_stop col_start col_stop.
      crop_window t bbox = Inr ((row_start, row_stop), (col_start, col_stop)) \<longrightarrow>
      row_start \<le> row_stop \<and> col_start \<le> col_stop)"
proof (cases "determinant t = 0")
  case True
  then show ?thesis
    by (simp add: crop_window_def rowcol_not_invertible)
next
  case False
  from rowcol_two_points[OF False, of "bbox_left bbox" "bbox_right bbox" "bbox_top bbox" "bbox_bottom bbox"]
  obtain r1 r2 c1 c2 where
    rc: "\<And>op. rowcol t [bbox_left bbox, bbox_right bbox] [bbox_top bbox, bbox_bottom bbox] op =
           Inr ([op r1, op r2], [op c1, op c2])"
    by blast
  have cw: "crop_window t bbox =
      Inr ((min (min \<lceil>r2\<rceil> \<lceil>r1\<rceil>) (min \<lfloor>r2\<rfloor> \<lfloor>r1\<rfloor>), max (max \<lceil>r2\<rceil> \<lceil>r1\<rceil>) (max \<lfloor>r2\<rfloor> \<lfloor>r1\<rfloor>)),
           (min (min \<lceil>c1\<rceil> \<lceil>c2\<rceil>) (min \<lfloor>c1\<rfloor> \<lfloor>c2\<rfloor>), max (max \<lceil>c1\<rceil> \<lceil>c2\<rceil>) (max \<lfloor>c1\<rfloor> \<lfloor>c2\<rfloor>)))"
    by (simp add: crop_window_def rc)
  show ?thesis
    using False envelope_bounds(5)[of r2 r1] envelope_bounds(5)[of c1 c2]
    unfolding cw by simp
qed

theorem crop_window_well_ordered_witness:
  "determinant (Affine (1/2) 0 (- 180) 0 (- 1/2) 90) \<noteq> 0 \<and>
   crop_window (Affine (1/2) 0 (- 180) 0 (- 1/2) 90)
     \<lparr>bbox_left = 37/10, bbox_bottom = 433/10, bbox_right = 12/10, bbox_top = 401/10\<rparr> =
     Inr ((93, 100), (362, 368)) \<and>
   (93 :: int) \<le> 100 \<and> (362 :: int) \<le> 368 \<and>
   crop_window (Affine 1 2 0 2 4 0)
     \<lparr>bbox_left = 37/10, bbox_bottom = 433/10, bbox_right = 12/10, bbox_top = 401/10\<rparr> =
     Inl TransformNotInvertibleError"
proof -
  let ?t = "Affine (1/2) 0 (- 180) 0 (- 1/2) 90"
  let ?b = "\<lparr>bbox_left = 37/10, bbox_bottom = 433/10, bbox_right = 12/10, bbox_top = 401/10\<rparr>"
  have d: "determinant ?t \<noteq> 0" by simp
  have d0: "determinant (Affine 1 2 0 2 4 0) = 0" by simp
  have w: "crop_window ?t ?b = Inr ((93, 100), (362, 368))"
    by (simp add: crop_window_def rowcol_def)
  from crop_window_well_ordered[of ?t ?b] w have "(93 :: int) \<le> 100 \<and> (362 :: int) \<le> 368"
    by blast
  moreover from crop_window_well_ordered[of "Affine 1 2 0 2 4 0" ?b] d0
  have "crop_window (Affine 1 2 0 2 4 0) ?b = Inl TransformNotInvertibleError"
    by blast
  ultimately show ?thesis using d w by blast
qed

subsection \<open>Results of list comprehensions, paths of the variables\<close>

lemma sequence_map_Inr:
  "sequence (map f xs) = Inr ys \<Longrightarrow>
     length ys = length xs \<and> (\<forall>i < length xs. f (xs ! i) = Inr (ys ! i))"
proof (induction xs arbitrary: ys)
  case Nil
  then show ?case by simp
next
  case (Cons x xs)
  then obtain y ys' where y: "f x = Inr y" and ys': "sequence (map f xs) = Inr ys'"
    and ys: "ys = y # ys'"
    by (auto split: sum.splits)
  from Cons.IH[OF ys'] y ys show ?case
    by (auto simp: nth_Cons split: nat.splits)
qed

lemma sequence_all_Inr:
  "\<forall>r \<in> set rs. \<exists>x. r = Inr x \<Longrightarrow> sequence rs = Inr (map projr rs)"
  by (induction rs) auto

lemma np_stack_Inr:
  assumes "np_stack arrays = Inr stack"
  shows "layers stack = map data2 arrays"
    and "\<forall>arr \<in> set arrays. rows2 arr = rows3 stack \<and> cols2 arr = cols3 stack"
    and "arrays \<noteq> []"
  using assms
  by (auto simp: np_stack_def shape2_def list_all_iff split: list.splits if_splits)

lemma clim_file_path:
  assumes "1 \<le> m" "m \<le> 12"
  shows "bind_var (WorldClimVar_init (Quantity cv) (Some m)) (get_file_path self0) =
     Inr (wcdir self0 @ ''/'' @ wcprefix self0 @ ''_'' @ wcres self0 @ ''_'' @
          quantity_value cv @ ''_'' @ fmt02 m @ ''.tif'')"
  using assms
  by (simp add: bind_var_def WorldClimVar_init_def get_file_path_def get_var_name_def)

lemma bio_names_lookup: "\<exists>idx. map_of bio_names (bio_value b) = Some idx"
  by (cases b) (simp_all add: bio_names_def WorldClimBioAll_def enumerate_eq_zip upt_rec)

lemma bio_file_path:
  "\<exists>p. bind_var (WorldClimVar_init (Bio b) None) (get_file_path self0) = Inr p"
  using bio_names_lookup[of b]
  by (auto simp add: bind_var_def WorldClimVar_init_def get_file_path_def get_var_name_def)


lemma climfiles_sequence:
  "\<exists>rest.
     sequence (concat (map (\<lambda>m. map (\<lambda>cv. bind_var (WorldClimVar_init (Quantity cv) (Some (int m)))
                                            (get_file_path self0))
                                 WorldClimQuantityAll)
                     [1..<13])) =
     Inr ((wcdir self0 @ ''/'' @ wcprefix self0 @ ''_'' @ wcres self0 @ ''_prec_01.tif'') # rest)"
proof -
  let ?rs = "concat (map (\<lambda>m. map (\<lambda>cv. bind_var (WorldClimVar_init (Quantity cv) (Some (int m)))
                                            (get_file_path self0))
                                 WorldClimQuantityAll)
                     [1..<13])"
  have "\<forall>r \<in> set ?rs. \<exists>x. r = Inr x"
    by (auto simp: clim_file_path)
  then have "sequence ?rs = Inr (map projr ?rs)"
    by (rule sequence_all_Inr)
  moreover have "[1..<13] = 1 # [2..<13]"
    by (simp add: upt_conv_Cons)
  then have "\<exists>rest. map projr ?rs =
      (wcdir self0 @ ''/'' @ wcprefix self0 @ ''_'' @ wcres self0 @ ''_prec_01.tif'') # rest"
    by (simp add: WorldClimQuantityAll_def clim_file_path fmt02_def)
  ultimately show ?thesis by auto
qed

lemma biofiles_sequence:
  "\<exists>bfiles. sequence (map (\<lambda>b. bind_var (WorldClimVar_init (Bio b) None) (get_file_path self0))
                           WorldClimBioAll) = Inr bfiles"
proof -
  have "\<forall>r \<in> set (map (\<lambda>b. bind_var (WorldClimVar_init (Bio b) None) (get_file_path self0))
                       WorldClimBioAll). \<exists>x. r = Inr x"
    using bio_file_path by auto
  from sequence_all_Inr[OF this] show ?thesis by blast
qed

subsection \<open>C7: the stored transform is the file's, shifted by half a pixel\<close>

text \<open>
  C7. The constructor opens the first climate file, \<open>wc2.0_30s_prec_01.tif\<close> in the
  catalog's directory. When the open succeeds, the constructor succeeds and the transform
  it stores has the coefficients \<open>a\<close>, \<open>b\<close>, \<open>d\<close>, \<open>e\<close> of the file's transform, \<open>c - a / 2\<close>
  for \<open>c\<close> and \<open>f - e / 2\<close> for \<open>f\<close>; when the open raises, the constructor raises the same
  exception. No method of the class assigns \<open>self.transform\<close>: in the embedding the methods
  take the catalog and return their result only, never a catalog.
\<close>

theorem WorldClimData_init_half_pixel_shift:
  "(\<forall>ds. open_transform (dir @ ''/wc2.0_30s_prec_01.tif'') = Inr ds \<longrightarrow>
      (\<exists>self. WorldClimData_init open_transform dir = Inr self \<and>
         hd (climfiles self) = dir @ ''/wc2.0_30s_prec_01.tif'' \<and>
         aff_a (transform self) = aff_a ds \<and> aff_b (transform self) = aff_b ds \<and>
         aff_d (transform self) = aff_d ds \<and> aff_e (transform self) = aff_e ds \<and>
         aff_c (transform self) = aff_c ds - aff_a ds / 2 \<and>
         aff_f (transform self) = aff_f ds - aff_e ds / 2)) \<and>
   (\<forall>err. open_transform (dir @ ''/wc2.0_30s_prec_01.tif'') = Inl err \<longrightarrow>
      WorldClimData_init open_transform dir = Inl err)"
proof -
  let ?self0 = "\<lparr>wcdir = dir, wcprefix = ''wc2.0'', wc_crs = ''+proj=latlong'',
                  wcres = ''30s'', wc_resolution = 30 / 60 / 60\<rparr>"
  from climfiles_sequence[of ?self0] obtain rest where
    c: "sequence (concat (map (\<lambda>m. map (\<lambda>cv. bind_var (WorldClimVar_init (Quantity cv) (Some (int m)))
                                            (get_file_path ?self0))
                                 WorldClimQuantityAll)
                     [1..<13])) = Inr ((dir @ ''/wc2.0_30s_prec_01.tif'') # rest)"
    by auto
  from biofiles_sequence[of ?self0] obtain bfiles where
    b: "sequence (map (\<lambda>b. bind_var (WorldClimVar_init (Bio b) None) (get_file_path ?self0))
                           WorldClimBioAll) = Inr bfiles"
    by blast
  show ?thesis
    unfolding WorldClimData_init_def Let_def c b by simp
qed

theorem WorldClimData_init_half_pixel_shift_witness:
  "\<exists>self. WorldClimData_init (\<lambda>path. Inr (Affine (1/120) 0 (- 180) 0 (- 1/120) 90)) ''/wc'' = Inr self \<and>
      hd (climfiles self) = ''/wc/wc2.0_30s_prec_01.tif'' \<and>
      transform self = Affine (1/120) 0 (- 180 - 1/240) 0 (- 1/120) (90 + 1/240)"
proof -
  let ?ot = "\<lambda>path :: string. (Inr (Affine (1/120) 0 (- 180) 0 (- 1/120) 90) :: error + Affine)"
  have "?ot (''/wc'' @ ''/wc2.0_30s_prec_01.tif'') = Inr (Affine (1/120) 0 (- 180) 0 (- 1/120) 90)"
    by simp
  with WorldClimData_init_half_pixel_shift[of ?ot "''/wc''"]
  obtain self where s: "WorldClimData_init ?ot ''/wc'' = Inr self"
    "hd (climfiles self) = ''/wc'' @ ''/wc2.0_30s_prec_01.tif''"
    "aff_a (transform self) = 1/120" "aff_b (transform self) = 0"
    "aff_d (transform self) = 0" "aff_e (transform self) = - 1/120"
    "aff_c (transform self) = - 180 - (1/120) / 2"
    "aff_f (transform self) = 90 - (- 1/120) / 2"
    by auto
  then have "transform self = Affine (1/120) 0 (- 180 - 1/240) 0 (- 1/120) (90 + 1/240)"
    by (cases "transform self") simp
  with s show ?thesis by auto
qed

subsection \<open>The stack of cropped variables\<close>

lemma get_wc_for_bbox_Inr:
  assumes "get_wc_for_bbox self read_window bbox (Some vs) = Inr (stack, tr)"
  obtains files wcvars where
    "sequence (map (get_file_path self) vs) = Inr files"
    "sequence (map (\<lambda>wc_file. case crop_to_bbox self read_window wc_file bbox of
                                  Inl e \<Rightarrow> Inl e
                                | Inr img \<Rightarrow> layer img 0) files) = Inr wcvars"
    "np_stack wcvars = Inr stack"
  using assms by (auto simp: get_wc_for_bbox_def split: sum.splits)

lemma get_wc_for_bbox_layer:
  assumes ok: "get_wc_for_bbox self read_window bbox (Some vs) = Inr (stack, tr)"
    and i: "i < length vs"
  shows "length (layers stack) = length vs"
    and "\<exists>wc_file img. get_file_path self (vs ! i) = Inr wc_file \<and>
           crop_to_bbox self read_window wc_file bbox = Inr img \<and>
           layer stack i = layer img 0"
proof -
  from ok obtain files wcvars where
    files: "sequence (map (get_file_path self) vs) = Inr files"
    and wcvars: "sequence (map (\<lambda>wc_file. case crop_to_bbox self read_window wc_file bbox of
                                  Inl e \<Rightarrow> Inl e
                                | Inr img \<Rightarrow> layer img 0) files) = Inr wcvars"
    and stack: "np_stack wcvars = Inr stack"
    by (rule get_wc_for_bbox_Inr)
  note f = sequence_map_Inr[OF files]
  note w = sequence_map_Inr[OF wcvars]
  note st = np_stack_Inr[OF stack]
  show len: "length (layers stack) = length vs"
    using f w st(1) by simp
  from i f have fi: "get_file_path self (vs ! i) = Inr (files ! i)" and i': "i < length files"
    by simp_all
  from i' w have "(case crop_to_bbox self read_window (files ! i) bbox of
                     Inl e \<Rightarrow> Inl e
                   | Inr img \<Rightarrow> layer img 0) = Inr (wcvars ! i)" and i'': "i < length wcvars"
    by simp_all
  then obtain img where img: "crop_to_bbox self read_window (files ! i) bbox = Inr img"
    and l0: "layer img 0 = Inr (wcvars ! i)"
    by (auto split: sum.splits)
  from i'' st(2) have "rows2 (wcvars ! i) = rows3 stack" "cols2 (wcvars ! i) = cols3 stack"
    by simp_all
  with i'' st(1) len have "layer stack i = Inr (wcvars ! i)"
    by (simp add: layer_def)
  with fi img l0 show "\<exists>wc_file img. get_file_path self (vs ! i) = Inr wc_file \<and>
           crop_to_bbox self read_window wc_file bbox = Inr img \<and>
           layer stack i = layer img 0"
    by auto
qed

lemma example_paths:
  "get_file_path example_catalog example_tavg_08 = Inr ''/wc/wc2.0_30s_tavg_08.tif''"
  "get_file_path example_catalog example_bio_01 = Inr ''/wc/wc2.0_bio_30s_01.tif''"
  by (simp_all add: get_file_path_def get_var_name_def example_catalog_def example_tavg_08_def
      example_bio_01_def fmt02_def bio_names_def WorldClimBioAll_def enumerate_eq_zip upt_rec)

lemma example_window:
  "crop_window (transform example_catalog) example_bbox = Inr ((94, 96), (362, 364))"
  by (simp add: crop_window_def rowcol_def example_catalog_def example_bbox_def)

lemma example_crop:
  "crop_to_bbox example_catalog example_reader path example_bbox =
    Inr \<lparr>rows3 = 2, cols3 = 2,
         layers = [[real (length path), real (length path), real (length path),
                    real (length path)]]\<rparr>"
  by (simp add: crop_to_bbox_def example_window example_reader_def eval_nat_numeral)

lemma example_stack:
  "get_wc_for_bbox example_catalog example_reader example_bbox
      (Some [example_tavg_08, example_bio_01, example_tavg_08]) =
    Inr (\<lparr>rows3 = 2, cols3 = 2,
          layers = [[25, 25, 25, 25], [24, 24, 24, 24], [25, 25, 25, 25]]\<rparr>,
         Affine (1/2) 0 (5/4) 0 (- 1/2) (171/4))"
  by (simp add: get_wc_for_bbox_def example_paths example_crop layer_def np_stack_def
      shape2_def)
     (simp add: example_catalog_def example_bbox_def)

subsection \<open>C5: the stack keeps the order of the requested variables\<close>

text \<open>
  C5. When \<open>get_wc_for_bbox\<close> returns for a list of requested variables, the stack has one
  layer per variable; layer \<open>i\<close> is the first band of the crop of the file of variable
  \<open>i\<close>; two positions that hold the same variable hold the same layer. For the request
  \<open>[A, B, A]\<close>, layers 0 and 2 are identical and are the cropped data of \<open>A\<close>.
\<close>

theorem get_wc_for_bbox_preserves_order:
  assumes ok: "get_wc_for_bbox self read_window bbox (Some vs) = Inr (stack, tr)"
  shows "fst (shape3 stack) = length vs \<and>
     (\<forall>i < length vs. \<exists>wc_file img.
         get_file_path self (vs ! i) = Inr wc_file \<and>
         crop_to_bbox self read_window wc_file bbox = Inr img \<and>
         layer stack i = layer img 0) \<and>
     (\<forall>i j. i < length vs \<and> j < length vs \<and> vs ! i = vs ! j \<longrightarrow> layer stack i = layer stack j) \<and>
     (\<forall>A B. vs = [A, B, A] \<longrightarrow>
         layer stack 0 = layer stack 2 \<and>
         (\<exists>wc_file img. get_file_path self A = Inr wc_file \<and>
            crop_to_bbox self read_window wc_file bbox = Inr img \<and>
            layer stack 0 = layer img 0))"
proof -
  have len: "fst (shape3 stack) = length vs"
  proof (cases vs)
    case Nil
    with ok show ?thesis
      by (simp add: get_wc_for_bbox_def np_stack_def)
  next
    case (Cons v vs')
    then have "0 < length vs" by simp
    from get_wc_for_bbox_layer(1)[OF ok this] show ?thesis
      by (simp add: shape3_def)
  qed
  have each: "\<exists>wc_file img. get_file_path self (vs ! i) = Inr wc_file \<and>
         crop_to_bbox self read_window wc_file bbox = Inr img \<and>
         layer stack i = layer img 0" if "i < length vs" for i
    using get_wc_for_bbox_layer(2)[OF ok that] .
  have same: "layer stack i = layer stack j"
    if "i < length vs" "j < length vs" "vs ! i = vs ! j" for i j
    using each[OF that(1)] each[OF that(2)] that(3) by auto
  have aba: "layer stack 0 = layer stack 2 \<and>
         (\<exists>wc_file img. get_file_path self A = Inr wc_file \<and>
            crop_to_bbox self read_window wc_file bbox = Inr img \<and>
            layer stack 0 = layer img 0)" if "vs = [A, B, A]" for A B
    using same[of 0 2] each[of 0] that by simp
  from len each same aba show ?thesis by blast
qed

theorem get_wc_for_bbox_preserves_order_witness:
  "\<exists>stack tr.
     get_wc_for_bbox example_catalog example_reader example_bbox
       (Some [example_tavg_08, example_bio_01, example_tavg_08]) = Inr (stack, tr) \<and>
     fst (shape3 stack) = 3 \<and>
     layer stack 0 = layer stack 2 \<and>
     layer stack 0 = Inr \<lparr>rows2 = 2, cols2 = 2, data2 = [25, 25, 25, 25]\<rparr> \<and>
     layer stack 1 = Inr \<lparr>rows2 = 2, cols2 = 2, data2 = [24, 24, 24, 24]\<rparr>"
proof -
  let ?stack = "\<lparr>rows3 = 2, cols3 = 2,
          layers = [[25, 25, 25, 25], [24, 24, 24, 24], [25, 25, 25, 25 :: real]]\<rparr>"
  from get_wc_for_bbox_preserves_order[OF example_stack]
  have "fst (shape3 ?stack) = length [example_tavg_08, example_bio_01, example_tavg_08]"
    and "layer ?stack 0 = layer ?stack 2"
    by blast+
  moreover have "layer ?stack 0 = Inr \<lparr>rows2 = 2, cols2 = 2, data2 = [25, 25, 25, 25]\<rparr>"
    "layer ?stack 1 = Inr \<lparr>rows2 = 2, cols2 = 2, data2 = [24, 24, 24, 24]\<rparr>"
    by (simp_all add: layer_def)
  ultimately show ?thesis
    using example_stack by simp
qed

subsection \<open>C3: the origin of the returned transform\<close>

text \<open>
  C3. When \<open>get_wc_for_bbox\<close> returns, the transform it returns has the coefficients \<open>a\<close>,
  \<open>b\<close>, \<open>d\<close>, \<open>e\<close> of the catalog's transform, and its origin \<open>(c, f)\<close> is the left and the
  top of the requested bounding box. For a box that lies across pixel boundaries this
  origin is not the corner of the window that was read.
\<close>

theorem get_wc_for_bbox_transform_origin:
  assumes "get_wc_for_bbox self read_window bbox wc_vars = Inr (stack, tr)"
  shows "aff_a tr = aff_a (transform self) \<and> aff_b tr = aff_b (transform self) \<and>
         aff_d tr = aff_d (transform self) \<and> aff_e tr = aff_e (transform self) \<and>
         aff_c tr = bbox_left bbox \<and> aff_f tr = bbox_top bbox"
  using assms by (auto simp: get_wc_for_bbox_def split: sum.splits)

theorem get_wc_for_bbox_transform_origin_witness:
  "\<exists>stack tr.
     get_wc_for_bbox example_catalog example_reader example_bbox (Some [example_tavg_08]) =
       Inr (stack, tr) \<and>
     tr = Affine (1/2) 0 (5/4) 0 (- 1/2) (171/4) \<and>
     crop_window (transform example_catalog) example_bbox = Inr ((94, 96), (362, 364)) \<and>
     affine_apply (transform example_catalog) (362, 94) = (1, 43) \<and>
     (aff_c tr, aff_f tr) \<noteq> affine_apply (transform example_catalog) (362, 94)"
proof -
  have run: "get_wc_for_bbox example_catalog example_reader example_bbox (Some [example_tavg_08]) =
      Inr (\<lparr>rows3 = 2, cols3 = 2, layers = [[25, 25, 25, 25]]\<rparr>,
           Affine (aff_a (transform example_catalog)) (aff_b (transform example_catalog))
                  (bbox_left example_bbox)
                  (aff_d (transform example_catalog)) (aff_e (transform example_catalog))
                  (bbox_top example_bbox))"
    by (simp add: get_wc_for_bbox_def example_paths example_crop layer_def np_stack_def)
  from get_wc_for_bbox_transform_origin[OF run]
  have "Affine (aff_a (transform example_catalog)) (aff_b (transform example_catalog))
                  (bbox_left example_bbox)
                  (aff_d (transform example_catalog)) (aff_e (transform example_catalog))
                  (bbox_top example_bbox) = Affine (1/2) 0 (5/4) 0 (- 1/2) (171/4)"
    by (simp add: example_catalog_def example_bbox_def)
  moreover have "affine_apply (transform example_catalog) (362, 94) = (1, 43)"
    by (simp add: example_catalog_def)
  ultimately show ?thesis
    using run example_window by simp
qed

subsection \<open>Arrays of \<open>read_as_numpy\<close>\<close>

lemma np_zeros_Inr:
  assumes "np_zeros n size_y size_x = Inr arr"
  shows "shape3 arr = (n, nat size_y, nat size_x)" "0 \<le> size_y" "0 \<le> size_x"
  using assms by (auto simp: np_zeros_def shape3_def split: if_splits)

lemma shape3_astype: "shape3 (astype arr dtype) = shape3 arr"
  by (simp add: astype_def shape3_def)

lemma np_linspace_10:
  "np_linspace 50 950 10 = Inr [50, 150, 250, 350, 450, 550, 650, 750, 850, 950]"
  "np_linspace 950 50 10 = Inr [950, 850, 750, 650, 550, 450, 350, 250, 150, 50]"
  by (simp_all add: np_linspace_def upt_rec)

lemma read_as_numpy_Inr:
  assumes ok: "read_as_numpy self latlon_bbox read_window reproject wc_vars crs resolution
             (Some bounds) algorithm dtype = Inr (dst_wc, xcoords, ycoords, crs', tr)"
  obtains vs bbox wc_bbox src_transform zeros out where
    "(case wc_vars of None \<Rightarrow> WorldClimVarAll | Some vs \<Rightarrow> Inr vs) = Inr vs"
    "resolution \<noteq> 0"
    "latlon_bbox bounds crs' = Inr bbox"
    "get_wc_for_bbox self read_window bbox (Some vs) = Inr (wc_bbox, src_transform)"
    "np_zeros (fst (shape3 wc_bbox))
        \<lceil>(bbox_top bounds - bbox_bottom bounds) / resolution\<rceil>
        \<lceil>(bbox_right bounds - bbox_left bounds) / resolution\<rceil> = Inr zeros"
    "reproject wc_bbox zeros src_transform (wc_crs self)
        (Affine resolution 0 (bbox_left bounds) 0 (- resolution) (bbox_top bounds))
        crs' algorithm = Inr (out, tr)"
    "dst_wc = astype out dtype"
    "np_linspace (bbox_left bounds + resolution / 2) (bbox_right bounds - resolution / 2)
        \<lceil>(bbox_right bounds - bbox_left bounds) / resolution\<rceil> = Inr xcoords"
    "np_linspace (bbox_top bounds - resolution / 2) (bbox_bottom bounds + resolution / 2)
        \<lceil>(bbox_top bounds - bbox_bottom bounds) / resolution\<rceil> = Inr ycoords"
    "crs' = (case crs of None \<Rightarrow> wc_crs self | Some s \<Rightarrow> s)"
proof -
  define c where "c = (case crs of None \<Rightarrow> wc_crs self | Some s \<Rightarrow> s)"
  define sx where "sx = \<lceil>(bbox_right bounds - bbox_left bounds) / resolution\<rceil>"
  define sy where "sy = \<lceil>(bbox_top bounds - bbox_bottom bounds) / resolution\<rceil>"
  define dt where "dt = Affine resolution 0 (bbox_left bounds) 0 (- resolution) (bbox_top bounds)"
  note ok' = ok[unfolded read_as_numpy_def Let_def option.case(2),
      folded c_def sx_def sy_def dt_def]
  from ok' obtain vs where vs: "(case wc_vars of None \<Rightarrow> WorldClimVarAll | Some vs \<Rightarrow> Inr vs) = Inr vs"
    by (cases "case wc_vars of None \<Rightarrow> WorldClimVarAll | Some vs \<Rightarrow> Inr vs") simp_all
  note ok1 = ok'[unfolded vs sum.case]
  from ok1 have res: "resolution \<noteq> 0"
    by (cases "resolution = 0") simp_all
  note ok2 = ok1[unfolded if_not_P[OF res]]
  from ok2 obtain bbox where bbox: "latlon_bbox bounds c = Inr bbox"
    by (cases "latlon_bbox bounds c") simp_all
  note ok3 = ok2[unfolded bbox sum.case]
  from ok3 obtain wc_bbox src_transform where
    wc: "get_wc_for_bbox self read_window bbox (Some vs) = Inr (wc_bbox, src_transform)"
    by (cases "get_wc_for_bbox self read_window bbox (Some vs)") auto
  note ok4 = ok3[unfolded wc sum.case prod.case]
  from ok4 obtain zeros where z: "np_zeros (fst (shape3 wc_bbox)) sy sx = Inr zeros"
    by (cases "np_zeros (fst (shape3 wc_bbox)) sy sx") simp_all
  note ok5 = ok4[unfolded z sum.case]
  from ok5 obtain out tr' where
    rp: "reproject wc_bbox zeros src_transform (wc_crs self) dt c algorithm = Inr (out, tr')"
    by (cases "reproject wc_bbox zeros src_transform (wc_crs self) dt c algorithm") auto
  note ok6 = ok5[unfolded rp sum.case prod.case]
  from ok6 obtain xs where
    xs: "np_linspace (bbox_left bounds + resolution / 2) (bbox_right bounds - resolution / 2) sx = Inr xs"
    by (cases "np_linspace (bbox_left bounds + resolution / 2) (bbox_right bounds - resolution / 2) sx") simp_all
  note ok7 = ok6[unfolded xs sum.case]
  from ok7 obtain ys where
    ys: "np_linspace (bbox_top bounds - resolution / 2) (bbox_bottom bounds + resolution / 2) sy = Inr ys"
    by (cases "np_linspace (bbox_top bounds - resolution / 2) (bbox_bottom bounds + resolution / 2) sy") simp_all
  note ok8 = ok7[unfolded ys sum.case]
  from ok8 have eqs: "dst_wc = astype out dtype" "xcoords = xs" "ycoords = ys" "crs' = c" "tr = tr'"
    by simp_all
  show thesis
    by (rule that[OF vs res bbox[folded eqs(4)] wc z[unfolded sy_def sx_def]
          rp[unfolded dt_def, folded eqs(4) eqs(5)] eqs(1)
          xs[unfolded sx_def, folded eqs(2)] ys[unfolded sy_def, folded eqs(3)]
          eqs(4)[unfolded c_def]])
qed

subsection \<open>C2: the shape and the coordinates of a read\<close>

text \<open>
  C2. When \<open>read_as_numpy\<close> returns for \<open>n\<close> requested variables (the list given, or every
  WorldClim variable when none is given), and the reprojection returns an array of the
  shape of the destination it is given, the returned array has the shape
  \<open>(n, ceil ((top - bottom) / resolution), ceil ((right - left) / resolution))\<close>, both
  sizes being non-negative, and the coordinate vectors are the \<open>linspace\<close> of the pixel
  centres, half a resolution inside the bounds. For the bounds \<open>left = 0\<close>, \<open>right = 1000\<close>,
  \<open>top = 1000\<close>, \<open>bottom = 0\<close> and the resolution 100, the shape is \<open>(n, 10, 10)\<close>, the x
  coordinates run from 50 to 950 and the y coordinates from 950 to 50.
\<close>

theorem read_as_numpy_shape:
  assumes ok: "read_as_numpy self latlon_bbox read_window reproject wc_vars crs resolution
                 (Some bounds) algorithm dtype = Inr (dst_wc, xcoords, ycoords, crs', tr)"
    and fills: "\<forall>src dst st sc dt dc alg out tr'.
                  reproject src dst st sc dt dc alg = Inr (out, tr') \<longrightarrow> shape3 out = shape3 dst"
  shows "\<exists>vs. (case wc_vars of None \<Rightarrow> WorldClimVarAll | Some vs \<Rightarrow> Inr vs) = Inr vs \<and>
      shape3 dst_wc =
        (length vs,
         nat \<lceil>(bbox_top bounds - bbox_bottom bounds) / resolution\<rceil>,
         nat \<lceil>(bbox_right bounds - bbox_left bounds) / resolution\<rceil>) \<and>
      0 \<le> \<lceil>(bbox_top bounds - bbox_bottom bounds) / resolution\<rceil> \<and>
      0 \<le> \<lceil>(bbox_right bounds - bbox_left bounds) / resolution\<rceil> \<and>
      np_linspace (bbox_left bounds + resolution / 2) (bbox_right bounds - resolution / 2)
        \<lceil>(bbox_right bounds - bbox_left bounds) / resolution\<rceil> = Inr xcoords \<and>
      np_linspace (bbox_top bounds - resolution / 2) (bbox_bottom bounds + resolution / 2)
        \<lceil>(bbox_top bounds - bbox_bottom bounds) / resolution\<rceil> = Inr ycoords \<and>
      (bbox_left bounds = 0 \<and> bbox_right bounds = 1000 \<and> bbox_top bounds = 1000 \<and>
       bbox_bottom bounds = 0 \<and> resolution = 100 \<longrightarrow>
         shape3 dst_wc = (length vs, 10, 10) \<and>
         length xcoords = 10 \<and> hd xcoords = 50 \<and> last xcoords = 950 \<and>
         length ycoords = 10 \<and> hd ycoords = 950 \<and> last ycoords = 50)"
proof -
  from ok obtain vs bbox wc_bbox src_transform zeros out where
    vs: "(case wc_vars of None \<Rightarrow> WorldClimVarAll | Some vs \<Rightarrow> Inr vs) = Inr vs"
    and wc: "get_wc_for_bbox self read_window bbox (Some vs) = Inr (wc_bbox, src_transform)"
    and z: "np_zeros (fst (shape3 wc_bbox))
        \<lceil>(bbox_top bounds - bbox_bottom bounds) / resolution\<rceil>
        \<lceil>(bbox_right bounds - bbox_left bounds) / resolution\<rceil> = Inr zeros"
    and rp: "reproject wc_bbox zeros src_transform (wc_crs self)
        (Affine resolution 0 (bbox_left bounds) 0 (- resolution) (bbox_top bounds))
        crs' algorithm = Inr (out, tr)"
    and dst: "dst_wc = astype out dtype"
    and xs: "np_linspace (bbox_left bounds + resolution / 2) (bbox_right bounds - resolution / 2)
        \<lceil>(bbox_right bounds - bbox_left bounds) / resolution\<rceil> = Inr xcoords"
    and ys: "np_linspace (bbox_top bounds - resolution / 2) (bbox_bottom bounds + resolution / 2)
        \<lceil>(bbox_top bounds - bbox_bottom bounds) / resolution\<rceil> = Inr ycoords"
    by (rule read_as_numpy_Inr)
  have n: "fst (shape3 wc_bbox) = length vs"
  proof (cases vs)
    case Nil
    with wc show ?thesis by (simp add: get_wc_for_bbox_def np_stack_def)
  next
    case (Cons v vs')
    then have "0 < length vs" by simp
    from get_wc_for_bbox_layer(1)[OF wc this] show ?thesis by (simp add: shape3_def)
  qed
  note zs = np_zeros_Inr[OF z]
  from fills rp have "shape3 out = shape3 zeros" by blast
  with zs(1) n dst have shape: "shape3 dst_wc =
        (length vs,
         nat \<lceil>(bbox_top bounds - bbox_bottom bounds) / resolution\<rceil>,
         nat \<lceil>(bbox_right bounds - bbox_left bounds) / resolution\<rceil>)"
    by (simp add: shape3_astype)
  have scenario: "shape3 dst_wc = (length vs, 10, 10) \<and>
         length xcoords = 10 \<and> hd xcoords = 50 \<and> last xcoords = 950 \<and>
         length ycoords = 10 \<and> hd ycoords = 950 \<and> last ycoords = 50"
    if b: "bbox_left bounds = 0" "bbox_right bounds = 1000" "bbox_top bounds = 1000"
          "bbox_bottom bounds = 0" "resolution = 100"
  proof -
    from xs have "xcoords = [50, 150, 250, 350, 450, 550, 650, 750, 850, 950]"
      unfolding b by (simp add: np_linspace_10)
    moreover from ys have "ycoords = [950, 850, 750, 650, 550, 450, 350, 250, 150, 50]"
      unfolding b by (simp add: np_linspace_10)
    moreover from shape have "shape3 dst_wc = (length vs, 10, 10)"
      unfolding b by simp
    ultimately show ?thesis by simp
  qed
  from vs shape zs(2,3) xs ys scenario show ?thesis by blast
qed

lemma example_read:
  "read_as_numpy example_catalog example_latlon_bbox example_reader example_reproject
      (Some [example_tavg_08, example_bio_01, example_tavg_08]) None 100 (Some example_bounds)
      () id =
   Inr (\<lparr>rows3 = 10, cols3 = 10, layers = replicate 3 (replicate 100 0)\<rparr>,
        [50, 150, 250, 350, 450, 550, 650, 750, 850, 950],
        [950, 850, 750, 650, 550, 450, 350, 250, 150, 50],
        ''+proj=latlong'',
        Affine 100 0 0 0 (- 100) 1000)"
proof -
  have sz: "\<lceil>(bbox_right example_bounds - bbox_left example_bounds) / (100 :: real)\<rceil> = 10"
    "\<lceil>(bbox_top example_bounds - bbox_bottom example_bounds) / (100 :: real)\<rceil> = 10"
    by (simp_all add: example_bounds_def)
  have crs: "wc_crs example_catalog = ''+proj=latlong''"
    by (simp add: example_catalog_def)
  have ls: "np_linspace (bbox_left example_bounds + 100 / 2) (bbox_right example_bounds - 100 / 2) 10 =
      Inr [50, 150, 250, 350, 450, 550, 650, 750, 850, 950]"
    "np_linspace (bbox_top example_bounds - 100 / 2) (bbox_bottom example_bounds + 100 / 2) 10 =
      Inr [950, 850, 750, 650, 550, 450, 350, 250, 150, 50]"
    using np_linspace_10 by (simp_all add: example_bounds_def)
  have z: "np_zeros n 10 10 = Inr \<lparr>rows3 = 10, cols3 = 10, layers = replicate n (replicate 100 0)\<rparr>"
    for n by (simp add: np_zeros_def)
  have b: "bbox_left example_bounds = 0" "bbox_top example_bounds = 1000"
    by (simp_all add: example_bounds_def)
  show ?thesis
    unfolding read_as_numpy_def Let_def option.case sum.case sz crs ls
      example_latlon_bbox_def example_stack prod.case
    by (simp add: shape3_def z example_reproject_def astype_def b numeral_3_eq_3)
qed

theorem read_as_numpy_shape_witness:
  "\<exists>dst_wc xcoords ycoords crs tr.
     read_as_numpy example_catalog example_latlon_bbox example_reader example_reproject
       (Some [example_tavg_08, example_bio_01, example_tavg_08]) None 100 (Some example_bounds)
       () id = Inr (dst_wc, xcoords, ycoords, crs, tr) \<and>
     shape3 dst_wc = (3, 10, 10) \<and>
     hd xcoords = 50 \<and> last xcoords = 950 \<and> hd ycoords = 950 \<and> last ycoords = 50"
proof -
  have fills: "\<forall>src dst st sc dt dc alg out tr'.
      example_reproject src dst st sc dt dc alg = Inr (out, tr') \<longrightarrow> shape3 out = shape3 dst"
    by (simp add: example_reproject_def)
  have b: "bbox_left example_bounds = 0 \<and> bbox_right example_bounds = 1000 \<and>
           bbox_top example_bounds = 1000 \<and> bbox_bottom example_bounds = 0 \<and>
           (100 :: real) = 100"
    by (simp add: example_bounds_def)
  from read_as_numpy_shape[OF example_read fills] b
  have "shape3 \<lparr>rows3 = 10, cols3 = 10, layers = replicate 3 (replicate 100 (0 :: real))\<rparr> =
          (3, 10, 10)"
    and "hd [50, 150, 250, 350, 450, 550, 650, 750, 850, 950 :: real] = 50"
    and "last [50, 150, 250, 350, 450, 550, 650, 750, 850, 950 :: real] = 950"
    and "hd [950, 850, 750, 650, 550, 450, 350, 250, 150, 50 :: real] = 950"
    and "last [950, 850, 750, 650, 550, 450, 350, 250, 150, 50 :: real] = 50"
    by auto
  with example_read show ?thesis by blast
qed

subsection \<open>C10: the assertion on the bounds\<close>

text \<open>
  C10. Called with \<open>bounds = None\<close>, \<open>read_as_numpy\<close> raises AssertionError, whatever its
  other arguments, the reader of the files among them: no file is read first.
\<close>

theorem read_as_numpy_asserts_bounds:
  "read_as_numpy self latlon_bbox read_window reproject wc_vars crs resolution None
     algorithm dtype = Inl AssertionError"
  by (simp add: read_as_numpy_def)

theorem read_as_numpy_asserts_bounds_witness:
  "read_as_numpy example_catalog example_latlon_bbox failing_reader example_reproject
     (Some [example_tavg_08]) None 100 None () id = Inl AssertionError \<and>
   read_as_numpy example_catalog example_latlon_bbox example_reader example_reproject
     None (Some ''EPSG:32631'') 0 None () id = Inl AssertionError"
  using read_as_numpy_asserts_bounds[of example_catalog example_latlon_bbox failing_reader
          example_reproject "Some [example_tavg_08]" None 100 "()" id]
        read_as_numpy_asserts_bounds[of example_catalog example_latlon_bbox example_reader
          example_reproject None "Some ''EPSG:32631''" 0 "()" id]
  by blast

subsection \<open>C8: the path of a band\<close>

text \<open>
  C8. \<open>build_band_path\<close> raises exactly when the glob pattern of the band and the band
  type matches no file; what it raises is a FileNotFoundError whose message contains the
  band, the band type and the product directory. When the pattern matches, it returns the
  first match, also when several files match.
\<close>

theorem build_band_path_not_found:
  "((\<exists>err. build_band_path glob self band band_type = Inl err) \<longleftrightarrow>
      glob (product_dir self @ ''/*'' @ band_type_value band_type @ ''_'' @
            band_value band @ ''.tif'') = []) \<and>
   (\<forall>err. build_band_path glob self band band_type = Inl err \<longrightarrow>
      (\<exists>msg. err = FileNotFoundError msg \<and> sublist (band_value band) msg \<and>
             sublist (band_type_value band_type) msg \<and> sublist (product_dir self) msg)) \<and>
   (\<forall>first rest.
      glob (product_dir self @ ''/*'' @ band_type_value band_type @ ''_'' @
            band_value band @ ''.tif'') = first # rest \<longrightarrow>
      build_band_path glob self band band_type = Inr first)"
proof -
  let ?p = "glob (product_dir self @ ''/*'' @ band_type_value band_type @ ''_'' @
                  band_value band @ ''.tif'')"
  let ?msg = "''Could not find band '' @ band_value band @ '' of type '' @
              band_type_value band_type @ '' in product directory '' @ product_dir self"
  have m1: "sublist (band_value band) ?msg"
    by (rule sublist_appendI)
  have m2: "sublist (band_type_value band_type) ?msg"
    using sublist_appendI[of "band_type_value band_type"
        "''Could not find band '' @ band_value band @ '' of type ''"
        "'' in product directory '' @ product_dir self"]
    by simp
  have m3: "sublist (product_dir self) ?msg"
    using sublist_appendI[of "product_dir self"
        "''Could not find band '' @ band_value band @ '' of type '' @
         band_type_value band_type @ '' in product directory ''" "[]"]
    by simp
  show ?thesis
  proof (cases ?p)
    case Nil
    then have "build_band_path glob self band band_type = Inl (FileNotFoundError ?msg)"
      by (simp add: build_band_path_def)
    with Nil m1 m2 m3 show ?thesis by auto
  next
    case (Cons x xs)
    then have "build_band_path glob self band band_type = Inr x"
      by (simp add: build_band_path_def)
    with Cons show ?thesis by auto
  qed
qed

theorem build_band_path_not_found_witness:
  "build_band_path example_glob example_product B2 FRE =
     Inr ''/data/SENTINEL2A_20200101-105855-732_L2A_T31TCJ_C_V2-2/a_FRE_B2.tif'' \<and>
   (\<exists>msg. build_band_path example_glob example_product B3 SRE = Inl (FileNotFoundError msg) \<and>
      sublist ''B3'' msg \<and> sublist ''SRE'' msg \<and>
      sublist ''/data/SENTINEL2A_20200101-105855-732_L2A_T31TCJ_C_V2-2'' msg)"
proof -
  have two: "example_glob (product_dir example_product @ ''/*'' @ band_type_value FRE @ ''_'' @
                band_value B2 @ ''.tif'') =
      ''/data/SENTINEL2A_20200101-105855-732_L2A_T31TCJ_C_V2-2/a_FRE_B2.tif'' #
      [''/data/SENTINEL2A_20200101-105855-732_L2A_T31TCJ_C_V2-2/b_FRE_B2.tif'']"
    by (simp add: example_glob_def example_product_def)
  have none: "example_glob (product_dir example_product @ ''/*'' @ band_type_value SRE @ ''_'' @
                band_value B3 @ ''.tif'') = []"
    by (simp add: example_glob_def example_product_def)
  from build_band_path_not_found[of example_glob example_product B2 FRE] two
  have first: "build_band_path example_glob example_product B2 FRE =
      Inr ''/data/SENTINEL2A_20200101-105855-732_L2A_T31TCJ_C_V2-2/a_FRE_B2.tif''"
    by blast
  from build_band_path_not_found[of example_glob example_product B3 SRE] none
  obtain msg where "build_band_path example_glob example_product B3 SRE = Inl (FileNotFoundError msg)"
    "sublist (band_value B3) msg" "sublist (band_type_value SRE) msg"
    "sublist (product_dir example_product) msg"
    by blast
  then have "\<exists>msg. build_band_path example_glob example_product B3 SRE = Inl (FileNotFoundError msg) \<and>
      sublist ''B3'' msg \<and> sublist ''SRE'' msg \<and>
      sublist ''/data/SENTINEL2A_20200101-105855-732_L2A_T31TCJ_C_V2-2'' msg"
    by (auto simp: example_product_def)
  with first show ?thesis by blast
qed

subsection \<open>C9: the path of the root XML file\<close>

text \<open>
  C9. When at least one file matches the root XML pattern, \<open>build_xml_path\<close> returns
  \<open>None\<close>; when no file matches it raises FileNotFoundError; it never returns a path.
\<close>

theorem build_xml_path_returns_None:
  "(glob (product_dir self @ ''/*MTD_ALL.xml'') \<noteq> [] \<longrightarrow>
      build_xml_path glob self = Inr None) \<and>
   (glob (product_dir self @ ''/*MTD_ALL.xml'') = [] \<longrightarrow>
      build_xml_path glob self =
        Inl (FileNotFoundError
               (''Could not find root XML file in product directory '' @ product_dir self))) \<and>
   (\<forall>path. build_xml_path glob self \<noteq> Inr (Some path))"
  by (simp add: build_xml_path_def)

theorem build_xml_path_returns_None_witness:
  "example_glob ''/data/SENTINEL2A_20200101-105855-732_L2A_T31TCJ_C_V2-2/*MTD_ALL.xml'' =
     [''/data/SENTINEL2A_20200101-105855-732_L2A_T31TCJ_C_V2-2/a_MTD_ALL.xml''] \<and>
   build_xml_path example_glob example_product = Inr None \<and>
   build_xml_path (\<lambda>pattern. []) example_product =
     Inl (FileNotFoundError
            (''Could not find root XML file in product directory '' @
             ''/data/SENTINEL2A_20200101-105855-732_L2A_T31TCJ_C_V2-2''))"
proof -
  have one: "example_glob (product_dir example_product @ ''/*MTD_ALL.xml'') =
      [''/data/SENTINEL2A_20200101-105855-732_L2A_T31TCJ_C_V2-2/a_MTD_ALL.xml'']"
    by (simp add: example_glob_def example_product_def)
  then have ne: "example_glob (product_dir example_product @ ''/*MTD_ALL.xml'') \<noteq> []"
    by simp
  from build_xml_path_returns_None[of example_glob example_product] ne
  have "build_xml_path example_glob example_product = Inr None"
    by blast
  moreover from build_xml_path_returns_None[of "\<lambda>pattern. []" example_product]
  have "build_xml_path (\<lambda>pattern. []) example_product =
     Inl (FileNotFoundError
            (''Could not find root XML file in product directory '' @ product_dir example_product))"
    by blast
  ultimately show ?thesis
    using one by (simp add: example_product_def)
qed

end
